theory Spec2Isabelle
  imports Main
begin

text \<open>
  The grant pipeline of an OAuth2 token endpoint: \<^verbatim>\<open>lib/grantBase.js\<close> (the steps
  shared by all grants), \<^verbatim>\<open>lib/grant.js\<close> (the pipeline of a token request) and the
  two versions of the pre-approved grant. Asynchronous steps are modelled by what they
  hand to their callback; the storage model, the token generator and the transport are
  parameters.
\<close>

section \<open>JavaScript values\<close>

text \<open>
  The values that cross the boundary between the grant pipeline and its collaborators
  (users, client records, tokens, storage errors) are untyped JavaScript values. Only
  the shapes the pipeline inspects are kept: the two empty values, booleans, integers,
  strings and plain objects (a property list, first binding wins).
\<close>

datatype jsval =
    JUndefined
  | JNull
  | JBool bool
  | JNum int
  | JStr string
  | JObj "(string \<times> jsval) list"

text \<open>JavaScript truthiness, as used by \<^verbatim>\<open>if (x)\<close>, \<^verbatim>\<open>!x\<close> and \<^verbatim>\<open>a || b\<close>.\<close>

fun truthy :: "jsval \<Rightarrow> bool" where
  "truthy JUndefined = False"
| "truthy JNull = False"
| "truthy (JBool b) = b"
| "truthy (JNum n) = (n \<noteq> 0)"
| "truthy (JStr s) = (s \<noteq> [])"
| "truthy (JObj kvs) = True"

text \<open>
  Property read \<^verbatim>\<open>v.k\<close> on a value that is neither \<^verbatim>\<open>null\<close> nor \<^verbatim>\<open>undefined\<close>
  (on those the read throws; the steps below write that case out where it can happen).
  A primitive has none of the properties the pipeline asks for.
\<close>

fun get_prop :: "jsval \<Rightarrow> string \<Rightarrow> jsval" where
  "get_prop (JObj kvs) k = (case map_of kvs k of None \<Rightarrow> JUndefined | Some v \<Rightarrow> v)"
| "get_prop v k = JUndefined"

text \<open>\<^verbatim>\<open>a || b\<close>\<close>

definition js_or :: "jsval \<Rightarrow> jsval \<Rightarrow> jsval" where
  "js_or a b = (if truthy a then a else b)"

text \<open>\<^verbatim>\<open>typeof v === 'object'\<close>: true of objects and of \<^verbatim>\<open>null\<close>.\<close>

fun typeof_object :: "jsval \<Rightarrow> bool" where
  "typeof_object (JObj kvs) = True"
| "typeof_object JNull = True"
| "typeof_object v = False"

section \<open>Errors\<close>

text \<open>
  Modelled from the spec: the error constructor \<^verbatim>\<open>error(kind, message, cause)\<close> of
  \<^verbatim>\<open>lib/error.js\<close> is required by every source file but is not among them. Following
  section 4.2 it yields a tagged error carrying the kind, the message (which may be
  \<^verbatim>\<open>false\<close>) and the wrapped cause (\<^verbatim>\<open>undefined\<close> when the call has two arguments):
  \<^verbatim>\<open>error(k, m, c)\<close> is \<open>OAuth2Error k m c\<close>.

  A step hands its callback either such an error, or a value of the collaborator it got
  it from (\<^verbatim>\<open>done(err)\<close> in the token generation steps), or nothing (\<^verbatim>\<open>done()\<close>,
  which is \<open>Val JUndefined\<close>).
\<close>

datatype errval =
    OAuth2Error (err_kind: jsval) (err_message: jsval) (err_cause: jsval)
  | Val jsval

fun truthy_err :: "errval \<Rightarrow> bool" where
  "truthy_err (OAuth2Error k m c) = True"
| "truthy_err (Val v) = truthy v"

text \<open>Exceptions: the engine's TypeError, and \<^verbatim>\<open>throw new Error(message)\<close>.\<close>

datatype exn = TypeError | Error string

section \<open>The step runner\<close>

text \<open>
  A step is called with the context as \<^verbatim>\<open>this\<close> and one callback. It may change the
  context, and then either calls the callback once with \<^verbatim>\<open>(err, response)\<close>, or
  returns without ever calling it, or throws.
\<close>

datatype 'r outcome =
    Called errval "'r option"
  | NotCalled
  | Threw exn

type_synonym ('c, 'r) step = "'c \<Rightarrow> 'c \<times> 'r outcome"

text \<open>
  What the caller of the runner observes: the final callback \<^verbatim>\<open>next\<close> invoked with
  \<^verbatim>\<open>(err, response)\<close>, or never invoked, or an exception.
\<close>

datatype 'r final =
    Next errval "'r option"
  | Pending
  | Thrown exn

text \<open>
  \<^verbatim>\<open>run(pos)\<close> of the runner (both pre-approved files define the same one).
  \<^verbatim>\<open>fns[pos]\<close> beyond the end of the array is
  \<^verbatim>\<open>undefined\<close>, and calling it throws a TypeError (this happens only for the empty
  array, at \<^verbatim>\<open>pos = 0\<close>).
\<close>

function run :: "('c, 'r) step list \<Rightarrow> nat \<Rightarrow> 'c \<Rightarrow> 'c \<times> 'r final" where
  "run fns pos c =
     (if length fns \<le> pos then (c, Thrown TypeError)
      else
        (let (c', out) = (fns ! pos) c in
         case out of
           Threw x \<Rightarrow> (c', Thrown x)
         | NotCalled \<Rightarrow> (c', Pending)
         | Called err response \<Rightarrow>
             if truthy_err err then (c', Next err None)
             else if pos = length fns - 1 then (c', Next (Val JNull) response)
             else run fns (Suc pos) c'))"
  by pat_completeness auto
termination
  by (relation "measure (\<lambda>(fns, pos, c). length fns - pos)") auto

definition runner :: "('c, 'r) step list \<Rightarrow> 'c \<Rightarrow> 'c \<times> 'r final" where
  "runner fns context = run fns 0 context"

text \<open>The context after the first \<open>k\<close> steps have run in order, each to completion.\<close>

definition ctx_after :: "('c, 'r) step list \<Rightarrow> nat \<Rightarrow> 'c \<Rightarrow> 'c" where
  "ctx_after fns k c = fold (\<lambda>f c. fst (f c)) (take k fns) c"

text \<open>What step \<open>j\<close> reports when it is run on the context its predecessors left.\<close>

definition step_out :: "('c, 'r) step list \<Rightarrow> 'c \<Rightarrow> nat \<Rightarrow> 'r outcome" where
  "step_out fns c j = snd ((fns ! j) (ctx_after fns j c))"

definition calls_back_ok :: "'r outcome \<Rightarrow> bool" where
  "calls_back_ok out = (case out of Called err response \<Rightarrow> \<not> truthy_err err | _ \<Rightarrow> False)"


section \<open>Data model\<close>

text \<open>
  A string-valued slot that may be \<^verbatim>\<open>undefined\<close> (a form field, a credential) is a
  \<open>string option\<close>. It is falsy when undefined or empty.
\<close>

definition truthy_str :: "string option \<Rightarrow> bool" where
  "truthy_str x = (case x of None \<Rightarrow> False | Some s \<Rightarrow> s \<noteq> [])"

definition js_of_str :: "string option \<Rightarrow> jsval" where
  "js_of_str x = (case x of None \<Rightarrow> JUndefined | Some s \<Rightarrow> JStr s)"

text \<open>\<^verbatim>\<open>!x || !x.match(re)\<close> is the negation of this.\<close>

definition present_and_matches :: "(string \<Rightarrow> bool) \<Rightarrow> string option \<Rightarrow> bool" where
  "present_and_matches re x = (case x of None \<Rightarrow> False | Some s \<Rightarrow> s \<noteq> [] \<and> re s)"

text \<open>A property key: \<^verbatim>\<open>obj[undefined]\<close> reads the property named \<^verbatim>\<open>"undefined"\<close>.\<close>

definition key_of :: "string option \<Rightarrow> string" where
  "key_of x = (case x of None \<Rightarrow> ''undefined'' | Some s \<Rightarrow> s)"

text \<open>\<^verbatim>\<open>x || d\<close> for a string default \<^verbatim>\<open>d\<close>.\<close>

definition str_or :: "string option \<Rightarrow> string \<Rightarrow> string" where
  "str_or x d = (case x of None \<Rightarrow> d | Some s \<Rightarrow> if s = [] then d else s)"

text \<open>\<^verbatim>\<open>function Client(id, secret)\<close>\<close>

record client =
  clientId :: "string option"
  clientSecret :: "string option"

definition Client :: "string option \<Rightarrow> string option \<Rightarrow> client" where
  "Client id' secret = \<lparr>clientId = id', clientSecret = secret\<rparr>"

text \<open>
  A token lifetime of the configuration: \<^verbatim>\<open>null\<close>, a number of seconds, or an object
  with one entry per client id (whose entries are lifetimes again: a number, or
  \<^verbatim>\<open>null\<close> for a client whose tokens never expire).
\<close>

datatype lifetime =
    LNull
  | LSeconds int
  | LPerClient "(string \<times> lifetime) list"

text \<open>
  \<^verbatim>\<open>lifetime[key]\<close>: throws on \<^verbatim>\<open>null\<close>, is \<^verbatim>\<open>undefined\<close> (\<open>None\<close>) on a
  number and on an object without the entry. (A client id that names a property every
  number or object inherits, such as \<^verbatim>\<open>toString\<close>, is not modelled.)
\<close>

fun lifetime_index :: "lifetime \<Rightarrow> string \<Rightarrow> exn + lifetime option" where
  "lifetime_index LNull k = Inl TypeError"
| "lifetime_index (LSeconds n) k = Inr None"
| "lifetime_index (LPerClient kvs) k = Inr (map_of kvs k)"

text \<open>
  A timestamp slot: \<^verbatim>\<open>undefined\<close>, \<^verbatim>\<open>null\<close>, a Date (milliseconds since the
  epoch) or an invalid Date.
\<close>

datatype jsdate = DUndefined | DNull | DTime int | DInvalid

text \<open>
  \<^verbatim>\<open>expires = new Date(now); expires.setSeconds(expires.getSeconds() + lifetime)\<close> for
  a lifetime that is not \<^verbatim>\<open>null\<close>. A time value beyond 8.64e15 milliseconds on either
  side of the epoch makes the Date invalid. Adding an object to a number gives a string,
  which \<^verbatim>\<open>setSeconds\<close> reads as NaN: the Date becomes invalid as well. (Lifetimes are
  whole seconds, and seconds are added on the absolute time line: a shift of the local
  clock between the two instants is not modelled.)
\<close>

fun add_seconds :: "int \<Rightarrow> lifetime \<Rightarrow> jsdate" where
  "add_seconds now' (LSeconds n) =
     (if - 8640000000000000 \<le> now' + 1000 * n \<and> now' + 1000 * n \<le> 8640000000000000
      then DTime (now' + 1000 * n) else DInvalid)"
| "add_seconds now' (LPerClient kvs) = DInvalid"
| "add_seconds now' LNull = DTime now'"

text \<open>
  \<^verbatim>\<open>d < now\<close> for a Date \<^verbatim>\<open>now\<close>: both sides become numbers; \<^verbatim>\<open>null\<close> becomes
  0, \<^verbatim>\<open>undefined\<close> and an invalid Date become NaN, which is below nothing.
\<close>

fun date_lt :: "jsdate \<Rightarrow> int \<Rightarrow> bool" where
  "date_lt (DTime t) now' = (t < now')"
| "date_lt DNull now' = (0 < now')"
| "date_lt DUndefined now' = False"
| "date_lt DInvalid now' = False"

text \<open>
  The request abstraction: method, content type, the parsed form fields (the payload may
  be missing), what the basic-auth library extracts from the request (name and pass, or
  nothing), and the two slots of \<^verbatim>\<open>req.app\<close> the pipeline writes.
\<close>

record req =
  req_method :: string
  mime :: string
  payload :: "(string \<rightharpoonup> string) option"
  basic_auth :: "(string \<times> string) option"
  app_user :: jsval
  app_oauth :: jsval

text \<open>
  An authorization code or refresh token record of the storage model:
  \<^verbatim>\<open>{clientId, expires, user | userId}\<close>.
\<close>

record grant_record =
  rec_clientId :: jsval
  rec_expires :: jsdate
  rec_user :: jsval
  rec_userId :: jsval

text \<open>
  The storage model. Every operation is asynchronous with one result: it is taken to
  call its callback exactly once, and is modelled by the arguments of that call, the
  error first. The two optional capabilities may be absent. The result of a lookup that
  finds nothing (\<^verbatim>\<open>null\<close>) is \<open>None\<close>.
\<close>

record model =
  getClient :: "string option \<Rightarrow> string option \<Rightarrow> jsval \<times> jsval"
  grantTypeAllowed :: "string option \<Rightarrow> string option \<Rightarrow> jsval \<times> jsval"
  getUser :: "string \<Rightarrow> string \<Rightarrow> jsval \<times> jsval"
  getUserFromClient :: "string option \<Rightarrow> string option \<Rightarrow> jsval \<times> jsval"
  getAuthCode :: "string \<Rightarrow> jsval \<times> grant_record option"
  getRefreshToken :: "string \<Rightarrow> jsval \<times> grant_record option"
  revokeRefreshToken :: "(string \<Rightarrow> jsval) option"
  extendedGrant :: "(string option \<Rightarrow> req \<Rightarrow> jsval \<times> jsval \<times> jsval) option"
  saveAccessToken_model ::
    "jsval \<Rightarrow> string option \<Rightarrow> jsdate \<Rightarrow> jsval \<Rightarrow> string option \<Rightarrow> jsval"
  saveRefreshToken_model :: "jsval \<Rightarrow> string option \<Rightarrow> jsdate \<Rightarrow> jsval \<Rightarrow> jsval"

record config =
  model :: model
  grants :: "string list"
  accessTokenLifetime :: lifetime
  refreshTokenLifetime :: lifetime
  regex_clientId :: "string \<Rightarrow> bool"
  regex_grantType :: "string \<Rightarrow> bool"
  continueAfterResponse :: bool

text \<open>The response payload; an absent field is \<open>None\<close>.\<close>

record response =
  token_type :: string
  access_token :: jsval
  expires_in :: "lifetime option"
  refresh_token :: "jsval option"

text \<open>A call of the storage model, with its arguments.\<close>

datatype call =
    GetClient "string option" "string option"
  | GrantTypeAllowed "string option" "string option"
  | GetUser string string
  | GetUserFromClient "string option" "string option"
  | GetAuthCode string
  | GetRefreshToken string
  | RevokeRefreshToken string
  | ExtendedGrant "string option"
  | SaveAccessToken jsval "string option" jsdate jsval "string option"
  | SaveRefreshToken jsval "string option" jsdate jsval

text \<open>
  The object a GrantBase is (\<^verbatim>\<open>this\<close> in every step). \<^verbatim>\<open>this.model\<close> is set once
  to \<^verbatim>\<open>config.model\<close> and never assigned again, so it is read as \<open>model (config this)\<close>.
  Two components belong to the environment rather than to the object:
  \<^item> \<open>calls\<close>, the calls made to the storage model so far, each with the error it
    reported;
  \<^item> \<open>callbackThis\<close>, the properties of the object that is \<^verbatim>\<open>this\<close> inside a callback
    the storage model invokes. The callbacks are plain functions in non-strict code, and
    the storage model never holds the grant object, so this is never the grant object
    (it is the global object when the model calls \<^verbatim>\<open>callback(err, result)\<close>).
\<close>

record grantBase =
  config :: config
  now :: int
  client :: "client option"
  clientModel :: jsval
  user :: jsval
  grantType :: "string option"
  accessToken :: jsval
  refreshToken :: jsval
  calls :: "(call \<times> jsval) list"
  callbackThis :: "(string \<times> jsval) list"

text \<open>A Grant adds the request and the transport (the responses handed to \<^verbatim>\<open>this.res\<close>).\<close>

record grant = grantBase +
  req :: req
  res :: "response list"

text \<open>What the caller of a PreApprovedGrant supplies, and the grant object itself.\<close>

record pre_approved =
  pa_user :: jsval
  client_id :: "string option"
  client_secret :: "string option"
  grant_type :: "string option"

record preApprovedGrant = grantBase +
  preApproved :: pre_approved

text \<open>
  The token generator \<^verbatim>\<open>token(context, kind, callback)\<close> of \<^verbatim>\<open>lib/token.js\<close> is not
  among the source files: it is a parameter of the steps that call it, modelled by the
  \<^verbatim>\<open>(err, token)\<close> it calls back with.
\<close>

type_synonym 'a tokengen = "'a grantBase_scheme \<Rightarrow> string \<Rightarrow> jsval \<times> jsval"

definition log_call :: "call \<Rightarrow> jsval \<Rightarrow> 'a grantBase_scheme \<Rightarrow> 'a grantBase_scheme" where
  "log_call k err this = this\<lparr>calls := calls this @ [(k, err)]\<rparr>"

definition done_ok :: "'r outcome" where
  "done_ok = Called (Val JUndefined) None"

definition done_err :: "errval \<Rightarrow> 'r outcome" where
  "done_err e = Called e None"


section \<open>The shared steps (lib/grantBase.js)\<close>

text \<open>
  \<^verbatim>\<open>GrantBase.prototype.checkClient\<close>. The success branch assigns
  \<^verbatim>\<open>this.clientModel\<close> inside the storage callback, where \<^verbatim>\<open>this\<close> is the
  callback's own receiver (\<^verbatim>\<open>self\<close> is declared, and not used).
\<close>

definition checkClient :: "('a grantBase_scheme, 'r) step" where
  "checkClient this =
     (case client this of
        None \<Rightarrow> (this, Threw TypeError)
      | Some cl \<Rightarrow>
          (let (err, client') = getClient (model (config this)) (clientId cl) (clientSecret cl);
               this = log_call (GetClient (clientId cl) (clientSecret cl)) err this
           in if truthy err then
                (this, done_err (OAuth2Error (JStr ''server_error'') (JBool False) err))
              else if \<not> truthy client' then
                (this, done_err (OAuth2Error (JStr ''invalid_client'')
                                   (JStr ''Client credentials are invalid'') JUndefined))
              else
                (this\<lparr>callbackThis := (''clientModel'', client') # callbackThis this\<rparr>,
                 done_ok)))"

definition generateAccessToken :: "'a tokengen \<Rightarrow> ('a grantBase_scheme, 'r) step" where
  "generateAccessToken token this =
     (let (err, tok) = token this ''accessToken''
      in (this\<lparr>accessToken := tok\<rparr>, done_err (Val err)))"

text \<open>
  \<^verbatim>\<open>GrantBase.prototype.saveAccessToken\<close>. \<^verbatim>\<open>typeof null\<close> is \<^verbatim>\<open>'object'\<close>, so a
  \<^verbatim>\<open>null\<close> token reaches the property read, which throws. The lifetime is indexed by
  the client id before it is compared with \<^verbatim>\<open>null\<close>.
\<close>

definition saveAccessToken :: "('a grantBase_scheme, 'r) step" where
  "saveAccessToken this =
     (let accessToken' = accessToken this in
      if accessToken' = JNull then (this, Threw TypeError)
      else if typeof_object accessToken' \<and> truthy (get_prop accessToken' ''accessToken'') then
        (this\<lparr>accessToken := get_prop accessToken' ''accessToken''\<rparr>, done_ok)
      else
        (case client this of
           None \<Rightarrow> (this, Threw TypeError)
         | Some cl \<Rightarrow>
             (case lifetime_index (accessTokenLifetime (config this)) (key_of (clientId cl)) of
                Inl x \<Rightarrow> (this, Threw x)
              | Inr entry \<Rightarrow>
                  (let lifetime = (case entry of
                                     Some l \<Rightarrow> l
                                   | None \<Rightarrow> accessTokenLifetime (config this));
                       expires = (if lifetime \<noteq> LNull then add_seconds (now this) lifetime
                                  else DNull);
                       err = saveAccessToken_model (model (config this)) accessToken'
                               (clientId cl) expires (user this) (grantType this);
                       this = log_call (SaveAccessToken accessToken' (clientId cl) expires
                                          (user this) (grantType this)) err this
                   in if truthy err then
                        (this, done_err (OAuth2Error (JStr ''server_error'') (JBool False) err))
                      else (this, done_ok)))))"

definition generateRefreshToken :: "'a tokengen \<Rightarrow> ('a grantBase_scheme, 'r) step" where
  "generateRefreshToken token this =
     (if ''refresh_token'' \<notin> set (grants (config this)) then (this, done_ok)
      else
        (let (err, tok) = token this ''refreshToken''
         in (this\<lparr>refreshToken := tok\<rparr>, done_err (Val err))))"

definition saveRefreshToken :: "('a grantBase_scheme, 'r) step" where
  "saveRefreshToken this =
     (let refreshToken' = refreshToken this in
      if \<not> truthy refreshToken' then (this, done_ok)
      else if typeof_object refreshToken' \<and> truthy (get_prop refreshToken' ''refreshToken'') then
        (this\<lparr>refreshToken := get_prop refreshToken' ''refreshToken''\<rparr>, done_ok)
      else
        (case client this of
           None \<Rightarrow> (this, Threw TypeError)
         | Some cl \<Rightarrow>
             (case lifetime_index (refreshTokenLifetime (config this)) (key_of (clientId cl)) of
                Inl x \<Rightarrow> (this, Threw x)
              | Inr entry \<Rightarrow>
                  (let lifetime = (case entry of
                                     Some l \<Rightarrow> l
                                   | None \<Rightarrow> refreshTokenLifetime (config this));
                       expires = (if lifetime \<noteq> LNull then add_seconds (now this) lifetime
                                  else DNull);
                       err = saveRefreshToken_model (model (config this)) refreshToken'
                               (clientId cl) expires (user this);
                       this = log_call (SaveRefreshToken refreshToken' (clientId cl) expires
                                          (user this)) err this
                   in if truthy err then
                        (this, done_err (OAuth2Error (JStr ''server_error'') (JBool False) err))
                      else (this, done_ok)))))"

section \<open>The request pipeline (lib/grant.js)\<close>

definition credsFromBasic :: "req \<Rightarrow> client option" where
  "credsFromBasic r =
     (case basic_auth r of
        None \<Rightarrow> None
      | Some (name, pass) \<Rightarrow> Some (Client (Some name) (Some pass)))"

definition credsFromBody :: "req \<Rightarrow> exn + client" where
  "credsFromBody r =
     (case payload r of
        None \<Rightarrow> Inl TypeError
      | Some p \<Rightarrow> Inr (Client (p ''client_id'') (p ''client_secret'')))"

text \<open>\<^verbatim>\<open>credsFromBasic(this.req) || credsFromBody(this.req)\<close>\<close>

definition extract_client :: "req \<Rightarrow> exn + client" where
  "extract_client r =
     (case credsFromBasic r of
        Some cl \<Rightarrow> Inr cl
      | None \<Rightarrow> credsFromBody r)"

text \<open>The check of the extracted client shared by the request and pre-approved paths.\<close>

definition check_client_shape :: "config \<Rightarrow> client \<Rightarrow> 'r outcome" where
  "check_client_shape cfg cl =
     (if \<not> present_and_matches (regex_clientId cfg) (clientId cl) then
        done_err (OAuth2Error (JStr ''invalid_client'')
                    (JStr ''Invalid or missing client_id parameter'') JUndefined)
      else if \<not> truthy_str (clientSecret cl) then
        done_err (OAuth2Error (JStr ''invalid_client'')
                    (JStr ''Missing client_secret parameter'') JUndefined)
      else done_ok)"

definition extractCredentials :: "('a grant_scheme, 'r) step" where
  "extractCredentials this =
     (if req_method (req this) \<noteq> ''post'' \<or> mime (req this) \<noteq> ''application/x-www-form-urlencoded''
      then
        (this, done_err (OAuth2Error (JStr ''invalid_request'')
           (JStr ''Method must be POST with application/x-www-form-urlencoded encoding'')
           JUndefined))
      else
        (let this = this\<lparr>grantType :=
                      (case payload (req this) of None \<Rightarrow> None | Some p \<Rightarrow> p ''grant_type'')\<rparr>
         in if \<not> present_and_matches (regex_grantType (config this)) (grantType this) then
              (this, done_err (OAuth2Error (JStr ''invalid_request'')
                 (JStr ''Invalid or missing grant_type parameter'') JUndefined))
            else
              (case extract_client (req this) of
                 Inl x \<Rightarrow> (this, Threw x)
               | Inr cl \<Rightarrow>
                   (this\<lparr>client := Some cl\<rparr>, check_client_shape (config this) cl))))"

text \<open>
  The extension pattern \<^verbatim>\<open>/^[a-zA-Z][a-zA-Z0-9+.-]+:/\<close>: a letter, then a non-empty
  run of scheme characters, then a colon. The colon is no scheme character, so the run
  is the longest one.
\<close>

definition is_letter :: "char \<Rightarrow> bool" where
  "is_letter ch = (ch \<in> set ''abcdefghijklmnopqrstuvwxyzABCDEFGHIJKLMNOPQRSTUVWXYZ'')"

definition is_scheme_char :: "char \<Rightarrow> bool" where
  "is_scheme_char ch = (is_letter ch \<or> ch \<in> set ''0123456789+.-'')"

fun extension_scheme :: "string \<Rightarrow> bool" where
  "extension_scheme [] = False"
| "extension_scheme (ch # cs) =
     (is_letter ch \<and> takeWhile is_scheme_char cs \<noteq> [] \<and>
      (case dropWhile is_scheme_char cs of [] \<Rightarrow> False | d # ds \<Rightarrow> d = CHR '':''))"

definition useAuthCodeGrant :: "('a grant_scheme, 'r) step" where
  \<open>useAuthCodeGrant this =
     (case payload (req this) of
        None \<Rightarrow> (this, Threw TypeError)
      | Some p \<Rightarrow>
          (case p ''code'' of
             None \<Rightarrow> (this, done_err (OAuth2Error (JStr ''invalid_request'')
                                        (JStr ''No "code" parameter'') JUndefined))
           | Some code \<Rightarrow>
               if code = [] then
                 (this, done_err (OAuth2Error (JStr ''invalid_request'')
                                    (JStr ''No "code" parameter'') JUndefined))
               else
                 (let (err, authCode) = getAuthCode (model (config this)) code;
                      this = log_call (GetAuthCode code) err this
                  in if truthy err then
                       (this, done_err (OAuth2Error (JStr ''server_error'') (JBool False) err))
                     else
                       (case authCode of
                          None \<Rightarrow>
                            (this, done_err (OAuth2Error (JStr ''invalid_grant'')
                                               (JStr ''Invalid code'') JUndefined))
                        | Some ac \<Rightarrow>
                            (case client this of
                               None \<Rightarrow> (this, Threw TypeError)
                             | Some cl \<Rightarrow>
                                 if rec_clientId ac \<noteq> js_of_str (clientId cl) then
                                   (this, done_err (OAuth2Error (JStr ''invalid_grant'')
                                                      (JStr ''Invalid code'') JUndefined))
                                 else if date_lt (rec_expires ac) (now this) then
                                   (this, done_err (OAuth2Error (JStr ''invalid_grant'')
                                                      (JStr ''Code has expired'') JUndefined))
                                 else
                                   (let this = this\<lparr>user :=
                                                 js_or (rec_user ac) (JObj [(''id'', rec_userId ac)])\<rparr>
                                    in if \<not> truthy (get_prop (user this) ''id'') then
                                         (this, done_err (OAuth2Error (JStr ''server_error'')
                                            (JBool False)
                                            (JStr ''No user/userId parameter returned from getauthCode'')))
                                       else (this, done_ok)))))))\<close>

definition usePasswordGrant :: "('a grant_scheme, 'r) step" where
  \<open>usePasswordGrant this =
     (case payload (req this) of
        None \<Rightarrow> (this, Threw TypeError)
      | Some p \<Rightarrow>
          (case (p ''username'', p ''password'') of
             (Some uname, Some pword) \<Rightarrow>
               if uname = [] \<or> pword = [] then
                 (this, done_err (OAuth2Error (JStr ''invalid_client'')
                    (JStr ''Missing parameters. "username" and "password" are required'')
                    JUndefined))
               else
                 (let (err, user') = getUser (model (config this)) uname pword;
                      this = log_call (GetUser uname pword) err this
                  in if truthy err then
                       (this, done_err (OAuth2Error (JStr ''server_error'') (JBool False) err))
                     else if \<not> truthy user' then
                       (this, done_err (OAuth2Error (JStr ''invalid_grant'')
                                          (JStr ''User credentials are invalid'') JUndefined))
                     else (this\<lparr>user := user'\<rparr>, done_ok))
           | _ \<Rightarrow>
               (this, done_err (OAuth2Error (JStr ''invalid_client'')
                  (JStr ''Missing parameters. "username" and "password" are required'')
                  JUndefined))))\<close>

definition useRefreshTokenGrant :: "('a grant_scheme, 'r) step" where
  \<open>useRefreshTokenGrant this =
     (case payload (req this) of
        None \<Rightarrow> (this, Threw TypeError)
      | Some p \<Rightarrow>
          (case p ''refresh_token'' of
             None \<Rightarrow> (this, done_err (OAuth2Error (JStr ''invalid_request'')
                                        (JStr ''No "refresh_token" parameter'') JUndefined))
           | Some token \<Rightarrow>
               if token = [] then
                 (this, done_err (OAuth2Error (JStr ''invalid_request'')
                                    (JStr ''No "refresh_token" parameter'') JUndefined))
               else
                 (let (err, refreshToken') = getRefreshToken (model (config this)) token;
                      this = log_call (GetRefreshToken token) err this
                  in if truthy err then
                       (this, done_err (OAuth2Error (JStr ''server_error'') (JBool False) err))
                     else
                       (case refreshToken' of
                          None \<Rightarrow>
                            (this, done_err (OAuth2Error (JStr ''invalid_grant'')
                                               (JStr ''Invalid refresh token'') JUndefined))
                        | Some rt \<Rightarrow>
                            (case client this of
                               None \<Rightarrow> (this, Threw TypeError)
                             | Some cl \<Rightarrow>
                                 if rec_clientId rt \<noteq> js_of_str (clientId cl) then
                                   (this, done_err (OAuth2Error (JStr ''invalid_grant'')
                                                      (JStr ''Invalid refresh token'') JUndefined))
                                 else if rec_expires rt \<noteq> DNull \<and>
                                         date_lt (rec_expires rt) (now this) then
                                   (this, done_err (OAuth2Error (JStr ''invalid_grant'')
                                                      (JStr ''Refresh token has expired'')
                                                      JUndefined))
                                 else if \<not> truthy (rec_user rt) \<and> \<not> truthy (rec_userId rt) then
                                   (this, done_err (OAuth2Error (JStr ''server_error'')
                                      (JBool False)
                                      (JStr ''No user/userId parameter returned from getRefreshToken'')))
                                 else
                                   (let this = this\<lparr>user :=
                                                 js_or (rec_user rt) (JObj [(''id'', rec_userId rt)])\<rparr>
                                    in case revokeRefreshToken (model (config this)) of
                                         Some revoke \<Rightarrow>
                                           (let err = revoke token;
                                                this = log_call (RevokeRefreshToken token) err this
                                            in if truthy err then
                                                 (this, done_err (OAuth2Error (JStr ''server_error'')
                                                                    (JBool False) err))
                                               else (this, done_ok))
                                       | None \<Rightarrow> (this, done_ok)))))))\<close>

definition useClientCredentialsGrant :: "('a grant_scheme, 'r) step" where
  \<open>useClientCredentialsGrant this =
     (case client this of
        None \<Rightarrow> (this, Threw TypeError)
      | Some cl \<Rightarrow>
          if \<not> truthy_str (clientId cl) \<or> \<not> truthy_str (clientSecret cl) then
            (this, done_err (OAuth2Error (JStr ''invalid_client'')
               (JStr ''Missing parameters. "client_id" and "client_secret" are required'')
               JUndefined))
          else
            (let (err, user') = getUserFromClient (model (config this))
                                  (clientId cl) (clientSecret cl);
                 this = log_call (GetUserFromClient (clientId cl) (clientSecret cl)) err this
             in if truthy err then
                  (this, done_err (OAuth2Error (JStr ''server_error'') (JBool False) err))
                else if \<not> truthy user' then
                  (this, done_err (OAuth2Error (JStr ''invalid_grant'')
                                     (JStr ''Client credentials are invalid'') JUndefined))
                else (this\<lparr>user := user'\<rparr>, done_ok)))\<close>

text \<open>
  \<^verbatim>\<open>useExtendedGrant\<close>: the storage model calls back with
  \<^verbatim>\<open>(err, supported, user)\<close>, and the error it reports chooses kind and message.
\<close>

definition useExtendedGrant :: "('a grant_scheme, 'r) step" where
  "useExtendedGrant this =
     (case extendedGrant (model (config this)) of
        None \<Rightarrow> (this, Threw TypeError)
      | Some extended \<Rightarrow>
          (let (err, supported, user') = extended (grantType this) (req this);
               this = log_call (ExtendedGrant (grantType this)) err this
           in if truthy err then
                (this, done_err (OAuth2Error
                   (js_or (get_prop err ''type'') (JStr ''server_error''))
                   (js_or (get_prop err ''description'') (get_prop err ''message''))
                   err))
              else if \<not> truthy supported then
                (this, done_err (OAuth2Error (JStr ''invalid_request'')
                   (JStr ''Invalid grant_type parameter or parameter missing'') JUndefined))
              else if \<not> truthy user' \<or> get_prop user' ''id'' = JUndefined then
                (this, done_err (OAuth2Error (JStr ''invalid_request'')
                                   (JStr ''Invalid request.'') JUndefined))
              else (this\<lparr>user := user'\<rparr>, done_ok)))"

definition checkGrantType :: "('a grant_scheme, 'r) step" where
  "checkGrantType this =
     (case grantType this of
        None \<Rightarrow> (this, Threw TypeError)
      | Some gt \<Rightarrow>
          if extension_scheme gt \<and> extendedGrant (model (config this)) \<noteq> None then
            useExtendedGrant this
          else if gt = ''authorization_code'' then useAuthCodeGrant this
          else if gt = ''password'' then usePasswordGrant this
          else if gt = ''refresh_token'' then useRefreshTokenGrant this
          else if gt = ''client_credentials'' then useClientCredentialsGrant this
          else
            (this, done_err (OAuth2Error (JStr ''invalid_request'')
               (JStr ''Invalid grant_type parameter or parameter missing'') JUndefined)))"

definition checkGrantTypeAllowed :: "('a grant_scheme, 'r) step" where
  "checkGrantTypeAllowed this =
     (case client this of
        None \<Rightarrow> (this, Threw TypeError)
      | Some cl \<Rightarrow>
          (let (err, allowed) = grantTypeAllowed (model (config this))
                                  (clientId cl) (grantType this);
               this = log_call (GrantTypeAllowed (clientId cl) (grantType this)) err this
           in if truthy err then
                (this, done_err (OAuth2Error (JStr ''server_error'') (JBool False) err))
              else if \<not> truthy allowed then
                (this, done_err (OAuth2Error (JStr ''invalid_client'')
                   (JStr ''The grant type is unauthorised for this client_id'') JUndefined))
              else (this, done_ok)))"

definition exposeUser :: "('a grant_scheme, 'r) step" where
  "exposeUser this = (this\<lparr>req := (req this)\<lparr>app_user := user this\<rparr>\<rparr>, done_ok)"

definition exposeClient :: "('a grant_scheme, 'r) step" where
  "exposeClient this =
     (this\<lparr>req := (req this)\<lparr>app_oauth := JObj [(''client'', clientModel this)]\<rparr>\<rparr>, done_ok)"

text \<open>
  \<^verbatim>\<open>sendResponse\<close> hands the response to the transport, and calls its callback only
  under \<^verbatim>\<open>continueAfterResponse\<close>.
\<close>

definition sendResponse :: "('a grant_scheme, 'r) step" where
  "sendResponse this =
     (let response = \<lparr>token_type = ''bearer'', access_token = accessToken this,
                      expires_in = None, refresh_token = None\<rparr>;
          lifetime = accessTokenLifetime (config this)
      in case (if lifetime = LNull then Inr response
               else
                 (case client this of
                    None \<Rightarrow> Inl TypeError
                  | Some cl \<Rightarrow>
                      (case lifetime_index lifetime (key_of (clientId cl)) of
                         Inl x \<Rightarrow> Inl x
                       | Inr (Some l) \<Rightarrow> Inr (response\<lparr>expires_in := Some l\<rparr>)
                       | Inr None \<Rightarrow> Inr (response\<lparr>expires_in := Some lifetime\<rparr>)))) of
           Inl x \<Rightarrow> (this, Threw x)
         | Inr response \<Rightarrow>
             (let response =
                    (if truthy (refreshToken this)
                     then response\<lparr>refresh_token := Some (refreshToken this)\<rparr> else response);
                  this = this\<lparr>res := res this @ [response]\<rparr>
              in if continueAfterResponse (config this) then (this, done_ok)
                 else (this, NotCalled)))"

text \<open>
  Modelled from the spec: the runner of \<^verbatim>\<open>lib/runner.js\<close>, which the Grant
  constructor requires, is not among the source files. Section 4.1 of the specification
  describes one step runner; the runner that the pre-approved grants define for
  themselves is taken for it.
\<close>

definition Grant_init :: "int \<Rightarrow> (string \<times> jsval) list \<Rightarrow> config \<Rightarrow> req \<Rightarrow> grant" where
  "Grant_init now' env config' req' =
     \<lparr>config = config', now = now', client = None, clientModel = JUndefined,
      user = JUndefined, grantType = None, accessToken = JUndefined,
      refreshToken = JUndefined, calls = [], callbackThis = env,
      req = req', res = []\<rparr>"

definition Grant_fns :: "unit grant_ext tokengen \<Rightarrow> (grant, response) step list" where
  "Grant_fns token =
     [extractCredentials,
      checkClient,
      exposeClient,
      checkGrantTypeAllowed,
      checkGrantType,
      exposeUser,
      generateAccessToken token,
      saveAccessToken,
      generateRefreshToken token,
      saveRefreshToken,
      sendResponse]"

definition Grant ::
  "unit grant_ext tokengen \<Rightarrow> int \<Rightarrow> (string \<times> jsval) list \<Rightarrow> config \<Rightarrow> req
     \<Rightarrow> grant \<times> response final" where
  "Grant token now' env config' req' =
     runner (Grant_fns token) (Grant_init now' env config' req')"


text \<open>
  A request of grant type \<open>gt\<close> from the client \<open>cl\<close> is admitted to the dispatch step
  when the four steps before it call back without error: method and content type are
  right, the grant type and the extracted client pass the configured patterns, the
  storage model knows the client and allows it the grant type.
\<close>

definition admitted :: "config \<Rightarrow> req \<Rightarrow> string \<Rightarrow> client \<Rightarrow> bool" where
  "admitted cfg rq gt cl =
     (req_method rq = ''post'' \<and> mime rq = ''application/x-www-form-urlencoded'' \<and>
      (case payload rq of None \<Rightarrow> False | Some p \<Rightarrow> p ''grant_type'' = Some gt) \<and>
      gt \<noteq> [] \<and> regex_grantType cfg gt \<and>
      extract_client rq = Inr cl \<and>
      present_and_matches (regex_clientId cfg) (clientId cl) \<and>
      truthy_str (clientSecret cl) \<and>
      \<not> truthy (fst (getClient (model cfg) (clientId cl) (clientSecret cl))) \<and>
      truthy (snd (getClient (model cfg) (clientId cl) (clientSecret cl))) \<and>
      \<not> truthy (fst (grantTypeAllowed (model cfg) (clientId cl) (Some gt))) \<and>
      truthy (snd (grantTypeAllowed (model cfg) (clientId cl) (Some gt))))"

text \<open>The grant object with which an admitted request enters the dispatch step.\<close>

definition at_dispatch ::
  "int \<Rightarrow> (string \<times> jsval) list \<Rightarrow> config \<Rightarrow> req \<Rightarrow> string \<Rightarrow> client \<Rightarrow> grant" where
  "at_dispatch now' env cfg rq gt cl =
     (Grant_init now' env cfg rq)
       \<lparr>grantType := Some gt, client := Some cl,
        calls := [(GetClient (clientId cl) (clientSecret cl),
                   fst (getClient (model cfg) (clientId cl) (clientSecret cl))),
                  (GrantTypeAllowed (clientId cl) (Some gt),
                   fst (grantTypeAllowed (model cfg) (clientId cl) (Some gt)))],
        callbackThis :=
          (''clientModel'', snd (getClient (model cfg) (clientId cl) (clientSecret cl))) # env,
        req := rq\<lparr>app_oauth := JObj [(''client'', JUndefined)]\<rparr>\<rparr>"

text \<open>
  A step of the request pipeline that leaves the configuration, the transport and the
  grant's \<^verbatim>\<open>clientModel\<close> alone, and that writes to \<^verbatim>\<open>req.app.oauth\<close>, if it
  does, an object holding that \<^verbatim>\<open>clientModel\<close>.
\<close>

definition keeps :: "('a grant_scheme, 'r) step \<Rightarrow> bool" where
  "keeps f =
     (\<forall>c. config (fst (f c)) = config c \<and> res (fst (f c)) = res c \<and>
          clientModel (fst (f c)) = clientModel c \<and>
          (app_oauth (req (fst (f c))) = app_oauth (req c) \<or>
           app_oauth (req (fst (f c))) = JObj [(''client'', clientModel c)]))"

section \<open>The pre-approved grants\<close>

text \<open>
  Two versions of \<^verbatim>\<open>PreApprovedGrant\<close> are in the source. The first defines all its
  steps itself; the second inherits the token steps and \<^verbatim>\<open>checkClient\<close> from
  GrantBase. Extraction and the direct injection of the user read the same in both. The
  steps of the first version carry the suffix \<open>_v1\<close> where they differ from those of
  GrantBase (its two token generation steps do not).
\<close>

definition extractPreApprovedCredentials :: "('a preApprovedGrant_scheme, 'r) step" where
  "extractPreApprovedCredentials this =
     (if \<not> truthy (pa_user (preApproved this)) then
        (this, done_err (OAuth2Error (JStr ''invalid_grant'')
                           (JStr ''Pre-approved user is missing'') JUndefined))
      else
        (let cl = Client (client_id (preApproved this)) (client_secret (preApproved this))
         in (this\<lparr>client := Some cl\<rparr>, check_client_shape (config this) cl)))"

definition usePreApprovedGrant :: "('a preApprovedGrant_scheme, 'r) step" where
  "usePreApprovedGrant this = (this\<lparr>user := pa_user (preApproved this)\<rparr>, done_ok)"

definition checkGrantType_preApproved :: "('a preApprovedGrant_scheme, 'r) step" where
  "checkGrantType_preApproved this = usePreApprovedGrant this"

definition checkClient_v1 :: "('a grantBase_scheme, 'r) step" where
  "checkClient_v1 this =
     (case client this of
        None \<Rightarrow> (this, Threw TypeError)
      | Some cl \<Rightarrow>
          (let (err, client') = getClient (model (config this)) (clientId cl) (clientSecret cl);
               this = log_call (GetClient (clientId cl) (clientSecret cl)) err this
           in if truthy err then
                (this, done_err (OAuth2Error (JStr ''server_error'') (JBool False) err))
              else if \<not> truthy client' then
                (this, done_err (OAuth2Error (JStr ''invalid_client'')
                                   (JStr ''Client credentials are invalid'') JUndefined))
              else (this, done_ok)))"

definition saveAccessToken_v1 :: "('a grantBase_scheme, 'r) step" where
  "saveAccessToken_v1 this =
     (let accessToken' = accessToken this in
      if accessToken' = JNull then (this, Threw TypeError)
      else if typeof_object accessToken' \<and> truthy (get_prop accessToken' ''accessToken'') then
        (this\<lparr>accessToken := get_prop accessToken' ''accessToken''\<rparr>, done_ok)
      else
        (case client this of
           None \<Rightarrow> (this, Threw TypeError)
         | Some cl \<Rightarrow>
             (let lifetime = accessTokenLifetime (config this);
                  expires = (if lifetime \<noteq> LNull then add_seconds (now this) lifetime
                             else DNull);
                  err = saveAccessToken_model (model (config this)) accessToken'
                          (clientId cl) expires (user this) (grantType this);
                  this = log_call (SaveAccessToken accessToken' (clientId cl) expires
                                     (user this) (grantType this)) err this
              in if truthy err then
                   (this, done_err (OAuth2Error (JStr ''server_error'') (JBool False) err))
                 else (this, done_ok))))"

definition saveRefreshToken_v1 :: "('a grantBase_scheme, 'r) step" where
  "saveRefreshToken_v1 this =
     (let refreshToken' = refreshToken this in
      if \<not> truthy refreshToken' then (this, done_ok)
      else if typeof_object refreshToken' \<and> truthy (get_prop refreshToken' ''refreshToken'') then
        (this\<lparr>refreshToken := get_prop refreshToken' ''refreshToken''\<rparr>, done_ok)
      else
        (case client this of
           None \<Rightarrow> (this, Threw TypeError)
         | Some cl \<Rightarrow>
             (let lifetime = refreshTokenLifetime (config this);
                  expires = (if lifetime \<noteq> LNull then add_seconds (now this) lifetime
                             else DNull);
                  err = saveRefreshToken_model (model (config this)) refreshToken'
                          (clientId cl) expires (user this);
                  this = log_call (SaveRefreshToken refreshToken' (clientId cl) expires
                                     (user this)) err this
              in if truthy err then
                   (this, done_err (OAuth2Error (JStr ''server_error'') (JBool False) err))
                 else (this, done_ok))))"

definition returnPreApprovedResponse_v1 :: "('a grantBase_scheme, response) step" where
  "returnPreApprovedResponse_v1 this =
     (let response = \<lparr>token_type = ''bearer'', access_token = accessToken this,
                      expires_in = None, refresh_token = None\<rparr>;
          response =
            (if accessTokenLifetime (config this) \<noteq> LNull
             then response\<lparr>expires_in := Some (accessTokenLifetime (config this))\<rparr>
             else response);
          response =
            (if truthy (refreshToken this)
             then response\<lparr>refresh_token := Some (refreshToken this)\<rparr> else response)
      in (this, Called (Val JNull) (Some response)))"

definition returnPreApprovedResponse :: "('a grantBase_scheme, response) step" where
  "returnPreApprovedResponse this =
     (let response = \<lparr>token_type = ''bearer'', access_token = accessToken this,
                      expires_in = None, refresh_token = None\<rparr>;
          lifetime = accessTokenLifetime (config this)
      in case (if lifetime = LNull then Inr response
               else
                 (case client this of
                    None \<Rightarrow> Inl TypeError
                  | Some cl \<Rightarrow>
                      (case lifetime_index lifetime (key_of (clientId cl)) of
                         Inl x \<Rightarrow> Inl x
                       | Inr (Some l) \<Rightarrow> Inr (response\<lparr>expires_in := Some l\<rparr>)
                       | Inr None \<Rightarrow> Inr (response\<lparr>expires_in := Some lifetime\<rparr>)))) of
           Inl x \<Rightarrow> (this, Threw x)
         | Inr response \<Rightarrow>
             (let response =
                    (if truthy (refreshToken this)
                     then response\<lparr>refresh_token := Some (refreshToken this)\<rparr> else response)
              in (this, Called (Val JNull) (Some response))))"

definition PreApprovedGrant_init ::
  "int \<Rightarrow> (string \<times> jsval) list \<Rightarrow> config \<Rightarrow> pre_approved \<Rightarrow> preApprovedGrant" where
  "PreApprovedGrant_init now' env config' preApproved' =
     \<lparr>config = config', now = now', client = None, clientModel = JUndefined,
      user = JUndefined, grantType = None, accessToken = JUndefined,
      refreshToken = JUndefined, calls = [], callbackThis = env,
      preApproved = preApproved'\<rparr>"

definition fns_v1 ::
  "unit preApprovedGrant_ext tokengen \<Rightarrow> (preApprovedGrant, response) step list" where
  "fns_v1 token =
     [extractPreApprovedCredentials,
      checkClient_v1,
      checkGrantType_preApproved,
      generateAccessToken token,
      saveAccessToken_v1,
      generateRefreshToken token,
      saveRefreshToken_v1,
      returnPreApprovedResponse_v1]"

text \<open>The first version: it refuses \<^verbatim>\<open>continueAfterResponse\<close> before the runner starts.\<close>

definition PreApprovedGrant_v1 ::
  "unit preApprovedGrant_ext tokengen \<Rightarrow> int \<Rightarrow> (string \<times> jsval) list \<Rightarrow> config
     \<Rightarrow> pre_approved \<Rightarrow> preApprovedGrant \<times> response final" where
  "PreApprovedGrant_v1 token now' env config' preApproved' =
     (let this = (PreApprovedGrant_init now' env config' preApproved')
                   \<lparr>grantType := Some ''preApproved''\<rparr>
      in if continueAfterResponse (config this) then
           (this, Thrown (Error ''continueAfterResponse option incompatible to preApproved''))
         else runner (fns_v1 token) this)"

definition PreApprovedGrant_fns ::
  "unit preApprovedGrant_ext tokengen \<Rightarrow> (preApprovedGrant, response) step list" where
  "PreApprovedGrant_fns token =
     [extractPreApprovedCredentials,
      checkClient,
      checkGrantType_preApproved,
      generateAccessToken token,
      saveAccessToken,
      generateRefreshToken token,
      saveRefreshToken,
      returnPreApprovedResponse]"

text \<open>The second version: \<^verbatim>\<open>GrantBase.call(this, config)\<close>, then the runner.\<close>

definition PreApprovedGrant ::
  "unit preApprovedGrant_ext tokengen \<Rightarrow> int \<Rightarrow> (string \<times> jsval) list \<Rightarrow> config
     \<Rightarrow> pre_approved \<Rightarrow> preApprovedGrant \<times> response final" where
  "PreApprovedGrant token now' env config' preApproved' =
     (let this = (PreApprovedGrant_init now' env config' preApproved')
                   \<lparr>grantType := Some (str_or (grant_type preApproved') ''preApproved'')\<rparr>
      in runner (PreApprovedGrant_fns token) this)"


section \<open>Storage errors\<close>

text \<open>
  The error a pipeline is to hand to its final callback when the storage call \<open>k\<close>
  reports the error \<open>err\<close>: \<^verbatim>\<open>server_error\<close> without a message, wrapping \<open>err\<close>;
  for the extended grant, the kind and the message that \<open>err\<close> itself names, where it
  names them.
\<close>

definition surfaced :: "call \<Rightarrow> jsval \<Rightarrow> errval" where
  "surfaced k err =
     (case k of
        ExtendedGrant gt \<Rightarrow>
          OAuth2Error (js_or (get_prop err ''type'') (JStr ''server_error''))
            (js_or (get_prop err ''description'') (get_prop err ''message'')) err
      | _ \<Rightarrow> OAuth2Error (JStr ''server_error'') (JBool False) err)"

text \<open>No storage call in the list has reported an error.\<close>

definition quiet :: "(call \<times> jsval) list \<Rightarrow> bool" where
  "quiet cs = (\<forall>x\<in>set cs. \<not> truthy (snd x))"

text \<open>
  A step reports storage errors: run after calls that reported none, it either leaves a
  list of calls that reported none, or the last call it made reported an error and the
  step calls back with that error surfaced.
\<close>

definition reports :: "('a grantBase_scheme, 'r) step \<Rightarrow> bool" where
  "reports f =
     (\<forall>c. quiet (calls c) \<longrightarrow>
        quiet (calls (fst (f c))) \<or>
        (calls (fst (f c)) \<noteq> [] \<and> quiet (butlast (calls (fst (f c)))) \<and>
         snd (f c) = Called (surfaced (fst (last (calls (fst (f c)))))
                               (snd (last (calls (fst (f c)))))) None))"

section \<open>Example inputs\<close>

text \<open>Two small step lists over a counter, for the runner.\<close>

definition demo_steps :: "(nat, string) step list" where
  "demo_steps =
     [\<lambda>c. (c + 1, Called (Val JUndefined) None),
      \<lambda>c. (c + 10, Called (Val (JStr ''boom'')) (Some ''dropped'')),
      \<lambda>c. (c + 100, Called (Val JUndefined) (Some ''late''))]"

definition demo_steps_ok :: "(nat, string) step list" where
  "demo_steps_ok =
     [\<lambda>c. (c + 1, Called (Val JUndefined) None),
      \<lambda>c. (c + 10, Called (Val (JNum 0)) (Some ''kept''))]"

text \<open>
  A storage model that knows one client and accepts everything: users come back with a
  name and no id, codes and refresh tokens belong to user 7 of client \<^verbatim>\<open>app\<close>; the
  code never expires and the refresh token expired at time 999.
\<close>

definition demo_model :: model where
  "demo_model =
     \<lparr>getClient = (\<lambda>i s. (JNull, JObj [(''name'', JStr ''The App'')])),
      grantTypeAllowed = (\<lambda>i g. (JNull, JBool True)),
      getUser = (\<lambda>u p. (JNull, JObj [(''name'', JStr u)])),
      getUserFromClient = (\<lambda>i s. (JNull, JObj [(''name'', JStr ''service'')])),
      getAuthCode = (\<lambda>code. (JNull, Some \<lparr>rec_clientId = JStr ''app'', rec_expires = DNull,
                                          rec_user = JUndefined, rec_userId = JNum 7\<rparr>)),
      getRefreshToken = (\<lambda>t. (JNull, Some \<lparr>rec_clientId = JStr ''app'',
                                          rec_expires = DTime 999,
                                          rec_user = JUndefined, rec_userId = JNum 7\<rparr>)),
      revokeRefreshToken = Some (\<lambda>t. JNull),
      extendedGrant = None,
      saveAccessToken_model = (\<lambda>t i e u g. JNull),
      saveRefreshToken_model = (\<lambda>t i e u. JNull)\<rparr>"

definition demo_config :: config where
  "demo_config =
     \<lparr>model = demo_model,
      grants = [''password'', ''refresh_token''],
      accessTokenLifetime = LSeconds 3600,
      refreshTokenLifetime = LSeconds 1209600,
      regex_clientId = (\<lambda>s. 3 \<le> length s),
      regex_grantType = (\<lambda>s. True),
      continueAfterResponse = False\<rparr>"

text \<open>The same, with a refresh token record whose expiry is null.\<close>

definition demo_config_null_refresh :: config where
  "demo_config_null_refresh =
     demo_config\<lparr>model := demo_model\<lparr>getRefreshToken :=
       (\<lambda>t. (JNull, Some \<lparr>rec_clientId = JStr ''app'', rec_expires = DNull,
                          rec_user = JUndefined, rec_userId = JNum 7\<rparr>))\<rparr>\<rparr>"

text \<open>A storage model whose client lookup fails, and one with an extended grant that fails.\<close>

definition demo_config_db_down :: config where
  "demo_config_db_down =
     demo_config\<lparr>model := demo_model\<lparr>getClient := (\<lambda>i s. (JStr ''db down'', JUndefined))\<rparr>\<rparr>"

definition demo_config_extended :: config where
  "demo_config_extended =
     demo_config\<lparr>model := demo_model\<lparr>extendedGrant :=
       Some (\<lambda>gt rq. (JObj [(''type'', JStr ''custom_error''), (''description'', JStr ''nope'')],
                       JUndefined, JUndefined))\<rparr>\<rparr>"

text \<open>Storage models that return a given authorization code or refresh token record.\<close>

definition demo_config_with_code :: "grant_record \<Rightarrow> config" where
  "demo_config_with_code ac =
     demo_config\<lparr>model := demo_model\<lparr>getAuthCode := (\<lambda>code. (JNull, Some ac))\<rparr>\<rparr>"

definition demo_config_with_refresh :: "grant_record \<Rightarrow> config" where
  "demo_config_with_refresh rt =
     demo_config\<lparr>model := demo_model\<lparr>getRefreshToken := (\<lambda>t. (JNull, Some rt))\<rparr>\<rparr>"

definition record_of_user_7 :: grant_record where
  "record_of_user_7 = \<lparr>rec_clientId = JStr ''app'', rec_expires = DTime 2000,
                        rec_user = JUndefined, rec_userId = JNum 7\<rparr>"

definition record_of_nobody :: grant_record where
  "record_of_nobody = \<lparr>rec_clientId = JStr ''app'', rec_expires = DTime 2000,
                        rec_user = JUndefined, rec_userId = JUndefined\<rparr>"

definition demo_token :: "'a tokengen" where
  "demo_token this kind = (JNull, JStr (if kind = ''accessToken'' then ''at-1'' else ''rt-1''))"

definition demo_req :: "(string \<times> string) list \<Rightarrow> req" where
  "demo_req kvs =
     \<lparr>req_method = ''post'', mime = ''application/x-www-form-urlencoded'',
      payload = Some (map_of kvs), basic_auth = None,
      app_user = JUndefined, app_oauth = JUndefined\<rparr>"

definition password_req :: req where
  "password_req = demo_req [(''grant_type'', ''password''), (''client_id'', ''app''),
     (''client_secret'', ''s3cret''), (''username'', ''bob''), (''password'', ''pw'')]"

definition code_req :: req where
  "code_req = demo_req [(''grant_type'', ''authorization_code''), (''client_id'', ''app''),
     (''client_secret'', ''s3cret''), (''code'', ''c0de'')]"

definition refresh_req :: req where
  "refresh_req = demo_req [(''grant_type'', ''refresh_token''), (''client_id'', ''app''),
     (''client_secret'', ''s3cret''), (''refresh_token'', ''old-rt'')]"

definition client_credentials_req :: req where
  "client_credentials_req = demo_req [(''grant_type'', ''client_credentials''),
     (''client_id'', ''app''), (''client_secret'', ''s3cret'')]"

definition extended_req :: req where
  "extended_req = demo_req [(''grant_type'', ''urn:custom:foo''), (''client_id'', ''app''),
     (''client_secret'', ''s3cret'')]"

definition demo_pre_approved :: pre_approved where
  "demo_pre_approved =
     \<lparr>pa_user = JObj [(''id'', JNum 7)], client_id = Some ''app'',
      client_secret = Some ''s3cret'', grant_type = None\<rparr>"

text \<open>A grant object after the dispatch step, holding the two generated tokens.\<close>

definition demo_grant :: "config \<Rightarrow> jsval \<Rightarrow> jsval \<Rightarrow> grant" where
  "demo_grant cfg atok rtok =
     (Grant_init 1000 [] cfg password_req)
       \<lparr>client := Some (Client (Some ''app'') (Some ''s3cret'')),
        user := JObj [(''id'', JNum 7)], grantType := Some ''password'',
        accessToken := atok, refreshToken := rtok\<rparr>"

section \<open>The step runner stops at the first error\<close>

declare run.simps [simp del]

lemma ctx_after_Suc:
  "k < length fns \<Longrightarrow> ctx_after fns (Suc k) c = fst ((fns ! k) (ctx_after fns k c))"
  by (simp add: ctx_after_def take_Suc_conv_app_nth)

lemma ctx_after_0: "ctx_after fns 0 c = c"
  by (simp add: ctx_after_def)

text \<open>Steps that call back without an error are passed over, as long as one remains.\<close>

lemma run_skip_ok:
  assumes "k < length fns" and "\<forall>j<k. calls_back_ok (step_out fns c j)"
  shows "run fns 0 c = run fns k (ctx_after fns k c)"
  using assms
proof (induction k)
  case 0
  then show ?case by (simp add: ctx_after_0)
next
  case (Suc k)
  from Suc.prems have k: "k < length fns" "k \<noteq> length fns - 1" by auto
  from Suc.prems have ok: "calls_back_ok (step_out fns c k)" by simp
  from Suc have "run fns 0 c = run fns k (ctx_after fns k c)" by simp
  also have "\<dots> = run fns (Suc k) (ctx_after fns (Suc k) c)"
    using k ok
    by (subst run.simps)
       (auto simp: ctx_after_Suc step_out_def calls_back_ok_def split: prod.splits outcome.splits)
  finally show ?case .
qed

lemma run_error_at:
  assumes "i < length fns" and "\<forall>j<i. calls_back_ok (step_out fns c j)"
    and "step_out fns c i = Called e r" and "truthy_err e"
  shows "runner fns c = (ctx_after fns (Suc i) c, Next e None)"
proof -
  have "runner fns c = run fns i (ctx_after fns i c)"
    unfolding runner_def using assms(1,2) by (rule run_skip_ok)
  also have "\<dots> = (ctx_after fns (Suc i) c, Next e None)"
    using assms(1,3,4)
    by (subst run.simps)
       (auto simp: ctx_after_Suc step_out_def split: prod.splits outcome.splits)
  finally show ?thesis .
qed

lemma run_all_ok:
  assumes "fns \<noteq> []" and "\<forall>j<length fns - 1. calls_back_ok (step_out fns c j)"
    and "step_out fns c (length fns - 1) = Called e r" and "\<not> truthy_err e"
  shows "runner fns c = (ctx_after fns (length fns) c, Next (Val JNull) r)"
proof -
  let ?k = "length fns - 1"
  from assms(1) have k: "?k < length fns" "Suc ?k = length fns" by (cases fns; simp)+
  have "runner fns c = run fns ?k (ctx_after fns ?k c)"
    unfolding runner_def using k(1) assms(2) by (rule run_skip_ok)
  also have "\<dots> = (ctx_after fns (Suc ?k) c, Next (Val JNull) r)"
    using k(1) assms(3,4)
    by (subst run.simps)
       (auto simp: ctx_after_Suc step_out_def split: prod.splits outcome.splits)
  finally show ?thesis using k(2) by simp
qed

text \<open>Two step lists with the same first \<open>i + 1\<close> steps behave alike up to step \<open>i\<close>.\<close>

lemma prefix_ctx_after:
  assumes "take (Suc i) fns' = take (Suc i) fns" and "j \<le> Suc i"
  shows "ctx_after fns' j c = ctx_after fns j c"
proof -
  have "take j (take (Suc i) fns') = take j (take (Suc i) fns)" using assms(1) by simp
  then have "take j fns' = take j fns" using assms(2) by (simp add: min_def)
  then show ?thesis by (simp add: ctx_after_def)
qed

lemma prefix_nth:
  assumes "take (Suc i) fns' = take (Suc i) fns" and "j \<le> i"
  shows "fns' ! j = fns ! j"
proof -
  have "take (Suc i) fns' ! j = take (Suc i) fns ! j" using assms(1) by simp
  then show ?thesis using assms(2) by simp
qed

lemma prefix_length:
  assumes "take (Suc i) fns' = take (Suc i) fns" and "i < length fns"
  shows "i < length fns'"
proof -
  have "length (take (Suc i) fns') = length (take (Suc i) fns)" using assms(1) by simp
  then show ?thesis using assms(2) by (simp add: min_def split: if_splits)
qed

lemma prefix_step_out:
  assumes "take (Suc i) fns' = take (Suc i) fns" and "j \<le> i"
  shows "step_out fns' c j = step_out fns c j"
  using prefix_nth [OF assms] prefix_ctx_after [OF assms(1), of j c] assms(2)
  by (simp add: step_out_def)

text \<open>
  Claim C5. Let the steps before the \<open>i\<close>-th call back without error and the \<open>i\<close>-th
  call back with the error \<open>e\<close>. Then the final callback is invoked with \<open>e\<close> itself and
  nothing else, the context is the one the first \<open>i + 1\<close> steps left, and the outcome is
  the same for every step list that starts with these \<open>i + 1\<close> steps: no later step
  runs. If every step of a non-empty list calls back without error, the final callback
  receives the response that the last step passed on.
\<close>

theorem runner_first_error_or_last_response:
  "(i < length fns \<and> (\<forall>j<i. calls_back_ok (step_out fns c j)) \<and>
      step_out fns c i = Called e r \<and> truthy_err e
    \<longrightarrow> runner fns c = (ctx_after fns (Suc i) c, Next e None) \<and>
        (\<forall>fns'. take (Suc i) fns' = take (Suc i) fns \<longrightarrow> runner fns' c = runner fns c))
   \<and>
   (fns \<noteq> [] \<and> (\<forall>j<length fns. calls_back_ok (step_out fns c j)) \<and>
      step_out fns c (length fns - 1) = Called e' r'
    \<longrightarrow> runner fns c = (ctx_after fns (length fns) c, Next (Val JNull) r'))"
proof (intro conjI impI allI)
  assume a: "i < length fns \<and> (\<forall>j<i. calls_back_ok (step_out fns c j)) \<and>
      step_out fns c i = Called e r \<and> truthy_err e"
  then show "runner fns c = (ctx_after fns (Suc i) c, Next e None)"
    by (simp add: run_error_at)
next
  fix fns' :: "('a, 'b) step list"
  assume a: "i < length fns \<and> (\<forall>j<i. calls_back_ok (step_out fns c j)) \<and>
      step_out fns c i = Called e r \<and> truthy_err e"
    and p: "take (Suc i) fns' = take (Suc i) fns"
  have 1: "runner fns c = (ctx_after fns (Suc i) c, Next e None)"
    using a by (simp add: run_error_at)
  have "i < length fns'" using p a by (simp add: prefix_length)
  moreover have "\<forall>j<i. calls_back_ok (step_out fns' c j)"
    using a prefix_step_out [OF p] by simp
  moreover have "step_out fns' c i = Called e r"
    using a prefix_step_out [OF p, of i] by simp
  ultimately have "runner fns' c = (ctx_after fns' (Suc i) c, Next e None)"
    using a by (simp add: run_error_at)
  then show "runner fns' c = runner fns c"
    using 1 prefix_ctx_after [OF p, of "Suc i" c] by simp
next
  assume b: "fns \<noteq> [] \<and> (\<forall>j<length fns. calls_back_ok (step_out fns c j)) \<and>
      step_out fns c (length fns - 1) = Called e' r'"
  then have last: "length fns - 1 < length fns" by (cases fns) simp_all
  with b have "calls_back_ok (step_out fns c (length fns - 1))" by blast
  with b have "\<not> truthy_err e'" by (simp add: calls_back_ok_def)
  with b show "runner fns c = (ctx_after fns (length fns) c, Next (Val JNull) r')"
    by (intro run_all_ok) auto
qed

text \<open>
  At \<open>demo_steps\<close> the second step fails: the error arrives as it is, the third step
  has not touched the counter, and replacing it by a step that throws changes nothing.
  At \<open>demo_steps_ok\<close> the response of the last step arrives.
\<close>

theorem runner_first_error_or_last_response_witness:
  "runner demo_steps 0 = (11, Next (Val (JStr ''boom'')) None) \<and>
   runner (take 2 demo_steps @ [\<lambda>c. (c + 5, Threw TypeError)]) 0 = runner demo_steps 0 \<and>
   runner demo_steps_ok 0 = (11, Next (Val JNull) (Some ''kept''))"
proof -
  have c2: "ctx_after demo_steps (Suc (Suc 0)) 0 = 11"
    by (simp add: demo_steps_def ctx_after_def)
  have h1: "Suc 0 < length demo_steps" by (simp add: demo_steps_def)
  have h2: "\<forall>j<Suc 0. calls_back_ok (step_out demo_steps 0 j)"
    by (simp add: demo_steps_def step_out_def ctx_after_def calls_back_ok_def)
  have h3: "step_out demo_steps 0 (Suc 0) = Called (Val (JStr ''boom'')) (Some ''dropped'')"
    by (simp add: step_out_def demo_steps_def ctx_after_def)
  have h4: "truthy_err (Val (JStr ''boom''))" by simp
  have p: "take (Suc (Suc 0)) (take 2 demo_steps @ [\<lambda>c. (c + 5, Threw TypeError)])
             = take (Suc (Suc 0)) demo_steps"
    by (simp add: demo_steps_def numeral_2_eq_2)
  have d2: "ctx_after demo_steps_ok (length demo_steps_ok) 0 = 11"
    by (simp add: demo_steps_ok_def ctx_after_def)
  have k1: "demo_steps_ok \<noteq> []" by (simp add: demo_steps_ok_def)
  have k3: "step_out demo_steps_ok 0 (length demo_steps_ok - 1)
              = Called (Val (JNum 0)) (Some ''kept'')"
    by (simp add: step_out_def demo_steps_ok_def ctx_after_def)
  have k2: "\<forall>j<length demo_steps_ok. calls_back_ok (step_out demo_steps_ok 0 j)"
  proof (intro allI impI)
    fix j assume "j < length demo_steps_ok"
    then have "j = 0 \<or> j = Suc 0" by (auto simp: demo_steps_ok_def)
    then show "calls_back_ok (step_out demo_steps_ok 0 j)"
      by (auto simp: step_out_def demo_steps_ok_def ctx_after_def calls_back_ok_def)
  qed
  from runner_first_error_or_last_response
         [of "Suc 0" demo_steps 0 "Val (JStr ''boom'')" "Some ''dropped''"
             "Val JUndefined" None]
       h1 h2 h3 h4
  have r1: "runner demo_steps 0
              = (ctx_after demo_steps (Suc (Suc 0)) 0, Next (Val (JStr ''boom'')) None)"
    and r2: "\<forall>fns'. take (Suc (Suc 0)) fns' = take (Suc (Suc 0)) demo_steps
               \<longrightarrow> runner fns' 0 = runner demo_steps 0"
    by blast+
  from runner_first_error_or_last_response
         [of 0 demo_steps_ok 0 "Val JUndefined" None "Val (JNum 0)" "Some ''kept''"]
       k1 k2 k3
  have r3: "runner demo_steps_ok 0
              = (ctx_after demo_steps_ok (length demo_steps_ok) 0,
                 Next (Val JNull) (Some ''kept''))"
    by blast
  from r1 c2 r2 [rule_format, OF p] r3 d2 show ?thesis by simp
qed

section \<open>Unfolding\<close>

lemmas step_defs = extractCredentials_def checkClient_def exposeClient_def
  checkGrantTypeAllowed_def checkGrantType_def exposeUser_def generateAccessToken_def
  saveAccessToken_def generateRefreshToken_def saveRefreshToken_def sendResponse_def
  usePasswordGrant_def useAuthCodeGrant_def useRefreshTokenGrant_def
  useClientCredentialsGrant_def useExtendedGrant_def check_client_shape_def
  extract_client_def credsFromBasic_def credsFromBody_def Client_def log_call_def
  done_ok_def done_err_def present_and_matches_def truthy_str_def js_of_str_def
  key_of_def js_or_def Let_def

lemmas pre_defs = extractPreApprovedCredentials_def usePreApprovedGrant_def
  checkGrantType_preApproved_def checkClient_v1_def saveAccessToken_v1_def
  saveRefreshToken_v1_def returnPreApprovedResponse_v1_def returnPreApprovedResponse_def
  PreApprovedGrant_init_def fns_v1_def PreApprovedGrant_v1_def PreApprovedGrant_fns_def
  PreApprovedGrant_def str_or_def

lemmas demo_defs = demo_model_def demo_config_def demo_token_def demo_req_def
  password_req_def code_req_def refresh_req_def demo_pre_approved_def demo_grant_def
  demo_config_null_refresh_def demo_config_db_down_def demo_config_extended_def
  extended_req_def demo_config_with_code_def demo_config_with_refresh_def
  record_of_user_7_def record_of_nobody_def client_credentials_req_def Grant_init_def

lemma run_step_ok:
  "Suc pos < length fns \<Longrightarrow> (fns ! pos) c = (c', Called e r) \<Longrightarrow> \<not> truthy_err e \<Longrightarrow>
   run fns pos c = run fns (Suc pos) c'"
  by (subst run.simps) auto

lemma run_step_err:
  "pos < length fns \<Longrightarrow> (fns ! pos) c = (c', Called e r) \<Longrightarrow> truthy_err e \<Longrightarrow>
   run fns pos c = (c', Next e None)"
  by (subst run.simps) auto

text \<open>
  An invariant rule for the runner: \<open>I\<close> holds of the context between steps, \<open>Q\<close> of
  the context and what the caller observes at the end.
\<close>

lemma run_rule:
  assumes "I c" and "pos < length fns"
    and mid: "\<And>k c c' out. k < length fns - 1 \<Longrightarrow> I c \<Longrightarrow> (fns ! k) c = (c', out) \<Longrightarrow>
         (case out of
            Threw x \<Rightarrow> Q (c', Thrown x)
          | NotCalled \<Rightarrow> Q (c', Pending)
          | Called e r \<Rightarrow> if truthy_err e then Q (c', Next e None) else I c')"
    and final: "\<And>c c' out. I c \<Longrightarrow> (fns ! (length fns - 1)) c = (c', out) \<Longrightarrow>
         (case out of
            Threw x \<Rightarrow> Q (c', Thrown x)
          | NotCalled \<Rightarrow> Q (c', Pending)
          | Called e r \<Rightarrow> if truthy_err e then Q (c', Next e None)
                          else Q (c', Next (Val JNull) r))"
  shows "Q (run fns pos c)"
  using assms(1,2)
proof (induction "length fns - pos" arbitrary: pos c)
  case 0
  then show ?case by simp
next
  case (Suc n)
  obtain c' out where f: "(fns ! pos) c = (c', out)" by (cases "(fns ! pos) c")
  show ?case
  proof (cases "pos = length fns - 1")
    case True
    with f have f': "(fns ! (length fns - 1)) c = (c', out)" by simp
    from final [OF Suc.prems(1) f'] f True Suc.prems(2) show ?thesis
      by (subst run.simps) (auto split: outcome.splits if_splits)
  next
    case False
    with Suc.prems(2) have k: "pos < length fns - 1" by simp
    show ?thesis
    proof (cases out)
      case (Called e r)
      show ?thesis
      proof (cases "truthy_err e")
        case True
        with mid [OF k Suc.prems(1) f] Called f Suc.prems(2) show ?thesis
          by (subst run.simps) auto
      next
        case nt: False
        with mid [OF k Suc.prems(1) f] Called have "I c'" by simp
        moreover from k have "Suc pos < length fns" by simp
        moreover from Suc.hyps(2) have "n = length fns - Suc pos" by simp
        ultimately have "Q (run fns (Suc pos) c')"
          by (intro Suc.hyps(1))
        then show ?thesis
          using f Called nt False Suc.prems(2) by (subst run.simps) auto
      qed
    next
      case NotCalled
      with mid [OF k Suc.prems(1) f] f Suc.prems(2) show ?thesis
        by (subst run.simps) auto
    next
      case (Threw x)
      with mid [OF k Suc.prems(1) f] f Suc.prems(2) show ?thesis
        by (subst run.simps) auto
    qed
  qed
qed

text \<open>None of the four built-in grant types has the shape of an extension scheme.\<close>

lemma builtin_not_extension [simp]:
  "\<not> extension_scheme ''authorization_code''" "\<not> extension_scheme ''refresh_token''"
  "\<not> extension_scheme ''password''" "\<not> extension_scheme ''client_credentials''"
  by (simp_all add: is_letter_def is_scheme_char_def)

text \<open>An admitted request passes the first four steps of the Grant pipeline.\<close>

lemma admitted_reaches_dispatch:
  assumes "admitted cfg rq gt cl"
  shows "Grant token now' env cfg rq = run (Grant_fns token) 4 (at_dispatch now' env cfg rq gt cl)"
proof -
  let ?fns = "Grant_fns token :: (grant, response) step list"
  let ?c0 = "Grant_init now' env cfg rq"
  obtain p where p: "payload rq = Some p" "p ''grant_type'' = Some gt"
    using assms by (auto simp: admitted_def split: option.splits)
  let ?c1 = "?c0\<lparr>grantType := Some gt, client := Some cl\<rparr>"
  have s0: "run ?fns 0 ?c0 = run ?fns (Suc 0) ?c1"
    using assms p
    by (intro run_step_ok [where e = "Val JUndefined" and r = None])
       (auto simp: Grant_fns_def admitted_def extractCredentials_def Grant_init_def Let_def
          check_client_shape_def done_ok_def present_and_matches_def)
  obtain e1 cm where g: "getClient (model cfg) (clientId cl) (clientSecret cl) = (e1, cm)"
    by (cases "getClient (model cfg) (clientId cl) (clientSecret cl)")
  let ?c2 = "?c1\<lparr>calls := [(GetClient (clientId cl) (clientSecret cl), e1)],
                 callbackThis := (''clientModel'', cm) # env\<rparr>"
  have s1: "run ?fns (Suc 0) ?c1 = run ?fns (Suc (Suc 0)) ?c2"
    using assms g
    by (intro run_step_ok [where e = "Val JUndefined" and r = None])
       (auto simp: Grant_fns_def admitted_def checkClient_def Grant_init_def Let_def
          log_call_def done_ok_def)
  let ?c3 = "?c2\<lparr>req := rq\<lparr>app_oauth := JObj [(''client'', JUndefined)]\<rparr>\<rparr>"
  have s2: "run ?fns (Suc (Suc 0)) ?c2 = run ?fns (Suc (Suc (Suc 0))) ?c3"
    by (intro run_step_ok [where e = "Val JUndefined" and r = None])
       (auto simp: Grant_fns_def exposeClient_def Grant_init_def done_ok_def)
  obtain e2 al where a: "grantTypeAllowed (model cfg) (clientId cl) (Some gt) = (e2, al)"
    by (cases "grantTypeAllowed (model cfg) (clientId cl) (Some gt)")
  have s3: "run ?fns (Suc (Suc (Suc 0))) ?c3
              = run ?fns (Suc (Suc (Suc (Suc 0)))) (at_dispatch now' env cfg rq gt cl)"
    using assms g a
    by (intro run_step_ok [where e = "Val JUndefined" and r = None])
       (auto simp: Grant_fns_def admitted_def checkGrantTypeAllowed_def Grant_init_def Let_def
          log_call_def done_ok_def at_dispatch_def)
  show ?thesis
    unfolding Grant_def runner_def using s0 s1 s2 s3 by (simp add: eval_nat_numeral)
qed

text \<open>The dispatch step is one of its five strategies, or rejects the grant type.\<close>

lemma checkGrantType_cases:
  fixes c :: "'a grant_scheme"
  assumes "grantType c = Some gt"
  shows "(checkGrantType c :: 'a grant_scheme \<times> 'r outcome) \<in>
           {useExtendedGrant c, useAuthCodeGrant c, usePasswordGrant c,
            useRefreshTokenGrant c, useClientCredentialsGrant c,
            (c, done_err (OAuth2Error (JStr ''invalid_request'')
               (JStr ''Invalid grant_type parameter or parameter missing'') JUndefined))}"
proof (cases "extension_scheme gt \<and> extendedGrant (model (config c)) \<noteq> None")
  case True
  with assms have "(checkGrantType c :: 'a grant_scheme \<times> 'r outcome) = useExtendedGrant c"
    unfolding checkGrantType_def by simp
  then show ?thesis by simp
next
  case ext: False
  show ?thesis
  proof (cases "gt = ''authorization_code''")
    case True
    with assms ext have "(checkGrantType c :: 'a grant_scheme \<times> 'r outcome) = useAuthCodeGrant c"
      unfolding checkGrantType_def by simp
    then show ?thesis by simp
  next
    case ac: False
    show ?thesis
    proof (cases "gt = ''password''")
      case True
      with assms ext have "(checkGrantType c :: 'a grant_scheme \<times> 'r outcome) = usePasswordGrant c"
        unfolding checkGrantType_def by simp
      then show ?thesis by simp
    next
      case pw: False
      show ?thesis
      proof (cases "gt = ''refresh_token''")
        case True
        with assms ext
        have "(checkGrantType c :: 'a grant_scheme \<times> 'r outcome) = useRefreshTokenGrant c"
          unfolding checkGrantType_def by simp
        then show ?thesis by simp
      next
        case rt: False
        show ?thesis
        proof (cases "gt = ''client_credentials''")
          case True
          with assms ext
          have "(checkGrantType c :: 'a grant_scheme \<times> 'r outcome) = useClientCredentialsGrant c"
            unfolding checkGrantType_def by simp
          then show ?thesis by simp
        next
          case False
          with assms ext ac pw rt
          have "(checkGrantType c :: 'a grant_scheme \<times> 'r outcome) =
                  (c, done_err (OAuth2Error (JStr ''invalid_request'')
                     (JStr ''Invalid grant_type parameter or parameter missing'') JUndefined))"
            unfolding checkGrantType_def by auto
          then show ?thesis by simp
        qed
      qed
    qed
  qed
qed

lemma nth_in_butlast: "k < length fns - 1 \<Longrightarrow> fns ! k \<in> set (butlast fns)"
proof -
  assume k: "k < length fns - 1"
  then have "butlast fns ! k = fns ! k" by (simp add: nth_butlast)
  moreover from k have "butlast fns ! k \<in> set (butlast fns)" by simp
  ultimately show ?thesis by simp
qed

lemma keeps_extractCredentials: "keeps (extractCredentials :: ('a grant_scheme, 'r) step)"
  by (simp add: keeps_def extractCredentials_def Let_def split: sum.split)

lemma keeps_checkClient: "keeps (checkClient :: ('a grant_scheme, 'r) step)"
  by (simp add: keeps_def checkClient_def Let_def log_call_def split: option.split prod.split)

lemma keeps_exposeClient: "keeps (exposeClient :: ('a grant_scheme, 'r) step)"
  by (simp add: keeps_def exposeClient_def)

lemma keeps_checkGrantTypeAllowed: "keeps (checkGrantTypeAllowed :: ('a grant_scheme, 'r) step)"
  by (simp add: keeps_def checkGrantTypeAllowed_def Let_def log_call_def
      split: option.split prod.split)

lemma keeps_useAuthCodeGrant: "keeps (useAuthCodeGrant :: ('a grant_scheme, 'r) step)"
  by (simp add: keeps_def useAuthCodeGrant_def Let_def log_call_def
      split: option.split prod.split)

lemma keeps_usePasswordGrant: "keeps (usePasswordGrant :: ('a grant_scheme, 'r) step)"
  by (simp add: keeps_def usePasswordGrant_def Let_def log_call_def
      split: option.split prod.split)

lemma keeps_useRefreshTokenGrant: "keeps (useRefreshTokenGrant :: ('a grant_scheme, 'r) step)"
  by (simp add: keeps_def useRefreshTokenGrant_def Let_def log_call_def
      split: option.split prod.split)

lemma keeps_useClientCredentialsGrant: "keeps (useClientCredentialsGrant :: ('a grant_scheme, 'r) step)"
  by (simp add: keeps_def useClientCredentialsGrant_def Let_def log_call_def
      split: option.split prod.split)

lemma keeps_useExtendedGrant: "keeps (useExtendedGrant :: ('a grant_scheme, 'r) step)"
  by (simp add: keeps_def useExtendedGrant_def Let_def log_call_def
      split: option.split prod.split)

lemma keeps_checkGrantType: "keeps (checkGrantType :: ('a grant_scheme, 'r) step)"
  unfolding keeps_def
proof
  fix c :: "'a grant_scheme"
  let ?r = "checkGrantType c :: 'a grant_scheme \<times> 'r outcome"
  show "config (fst ?r) = config c \<and> res (fst ?r) = res c \<and>
        clientModel (fst ?r) = clientModel c \<and>
        (app_oauth (req (fst ?r)) = app_oauth (req c) \<or>
         app_oauth (req (fst ?r)) = JObj [(''client'', clientModel c)])"
  proof (cases "grantType c")
    case None
    then show ?thesis by (simp add: checkGrantType_def)
  next
    case (Some gt)
    from checkGrantType_cases [OF Some, where ?'r = 'r]
      keeps_useExtendedGrant [where ?'r = 'r and ?'a = 'a]
      keeps_useAuthCodeGrant [where ?'r = 'r and ?'a = 'a]
      keeps_usePasswordGrant [where ?'r = 'r and ?'a = 'a]
      keeps_useRefreshTokenGrant [where ?'r = 'r and ?'a = 'a]
      keeps_useClientCredentialsGrant [where ?'r = 'r and ?'a = 'a]
    show ?thesis unfolding keeps_def by auto
  qed
qed

lemma keeps_exposeUser: "keeps (exposeUser :: ('a grant_scheme, 'r) step)"
  by (simp add: keeps_def exposeUser_def)

lemma keeps_generateAccessToken: "keeps (generateAccessToken token :: ('a grant_scheme, 'r) step)"
  by (simp add: keeps_def generateAccessToken_def Let_def split: prod.split)

lemma keeps_saveAccessToken: "keeps (saveAccessToken :: ('a grant_scheme, 'r) step)"
  by (simp add: keeps_def saveAccessToken_def Let_def log_call_def
      split: option.split sum.split)

lemma keeps_generateRefreshToken: "keeps (generateRefreshToken token :: ('a grant_scheme, 'r) step)"
  by (simp add: keeps_def generateRefreshToken_def Let_def split: prod.split)

lemma keeps_saveRefreshToken: "keeps (saveRefreshToken :: ('a grant_scheme, 'r) step)"
  by (simp add: keeps_def saveRefreshToken_def Let_def log_call_def
      split: option.split sum.split)

lemma keeps_before_sendResponse: "\<forall>f\<in>set (butlast (Grant_fns token)). keeps f"
  by (simp add: Grant_fns_def keeps_extractCredentials keeps_checkClient keeps_exposeClient
      keeps_checkGrantTypeAllowed keeps_checkGrantType keeps_exposeUser
      keeps_generateAccessToken keeps_saveAccessToken keeps_generateRefreshToken
      keeps_saveRefreshToken)

section \<open>A null access token lifetime\<close>

text \<open>
  Claim C3 (the code departs from it). With \<^verbatim>\<open>accessTokenLifetime\<close> null and a
  generated token that is no reissue marker (a string, say), the save step of GrantBase
  throws a TypeError: the lifetime is indexed by the client id before it is compared
  with null. The storage model is not called and the context is unchanged.
\<close>

theorem saveAccessToken_null_lifetime_throws:
  assumes "accessTokenLifetime (config this) = LNull"
    and "\<not> (typeof_object (accessToken this) \<and>
             truthy (get_prop (accessToken this) ''accessToken''))"
  shows "saveAccessToken this = (this, Threw TypeError)"
proof (cases "accessToken this = JNull")
  case True
  then show ?thesis by (simp add: saveAccessToken_def)
next
  case False
  show ?thesis
  proof (cases "client this")
    case None
    with False assms(2) show ?thesis by (auto simp: saveAccessToken_def Let_def)
  next
    case (Some cl)
    with False assms show ?thesis by (auto simp: saveAccessToken_def Let_def)
  qed
qed

text \<open>
  At the string token \<^verbatim>\<open>at-1\<close>; and a whole password request under the same
  configuration ends with the exception, no response handed to the transport and no
  call of \<^verbatim>\<open>saveAccessToken\<close> on the storage model.
\<close>

theorem saveAccessToken_null_lifetime_throws_witness:
  "accessTokenLifetime (demo_config\<lparr>accessTokenLifetime := LNull\<rparr>) = LNull \<and>
   saveAccessToken
     (demo_grant (demo_config\<lparr>accessTokenLifetime := LNull\<rparr>) (JStr ''at-1'') JUndefined)
    = (demo_grant (demo_config\<lparr>accessTokenLifetime := LNull\<rparr>) (JStr ''at-1'') JUndefined,
       Threw TypeError :: response outcome) \<and>
   snd (Grant demo_token 1000 [] (demo_config\<lparr>accessTokenLifetime := LNull\<rparr>) password_req)
     = Thrown TypeError \<and>
   res (fst (Grant demo_token 1000 [] (demo_config\<lparr>accessTokenLifetime := LNull\<rparr>)
               password_req)) = [] \<and>
   map fst (calls (fst (Grant demo_token 1000 [] (demo_config\<lparr>accessTokenLifetime := LNull\<rparr>)
                          password_req)))
     = [GetClient (Some ''app'') (Some ''s3cret''),
        GrantTypeAllowed (Some ''app'') (Some ''password''),
        GetUser ''bob'' ''pw'']"
proof -
  let ?cfg = "demo_config\<lparr>accessTokenLifetime := LNull\<rparr>"
  have "saveAccessToken (demo_grant ?cfg (JStr ''at-1'') JUndefined)
          = (demo_grant ?cfg (JStr ''at-1'') JUndefined, Threw TypeError :: response outcome)"
    by (rule saveAccessToken_null_lifetime_throws) (simp_all add: demo_defs)
  moreover have "snd (Grant demo_token 1000 [] ?cfg password_req) = Thrown TypeError \<and>
     res (fst (Grant demo_token 1000 [] ?cfg password_req)) = [] \<and>
     map fst (calls (fst (Grant demo_token 1000 [] ?cfg password_req)))
       = [GetClient (Some ''app'') (Some ''s3cret''),
          GrantTypeAllowed (Some ''app'') (Some ''password''),
          GetUser ''bob'' ''pw'']"
    by (simp add: Grant_def Grant_fns_def runner_def run.simps step_defs demo_defs)
  ultimately show ?thesis by simp
qed

section \<open>Pre-approved grants and \<^verbatim>\<open>continueAfterResponse\<close>\<close>

text \<open>
  Claim C4, as stated, fails for the second version of the pre-approved grant: with
  \<^verbatim>\<open>continueAfterResponse\<close> set, it runs its pipeline and returns the response.
\<close>

theorem PreApprovedGrant_continueAfterResponse_counterexample:
  "continueAfterResponse (demo_config\<lparr>continueAfterResponse := True\<rparr>) \<and>
   snd (PreApprovedGrant demo_token 1000 [] (demo_config\<lparr>continueAfterResponse := True\<rparr>)
          demo_pre_approved)
     = Next (Val JNull)
         (Some \<lparr>token_type = ''bearer'', access_token = JStr ''at-1'',
                expires_in = Some (LSeconds 3600), refresh_token = Some (JStr ''rt-1'')\<rparr>)"
  by (simp add: runner_def run.simps step_defs pre_defs demo_defs)

text \<open>
  Claim C4, amended. With \<^verbatim>\<open>continueAfterResponse\<close> set, constructing the first version
  of the pre-approved grant throws before the runner starts: no step has run, the grant
  object is as the constructor initialised it and the storage model was not called.
\<close>

theorem PreApprovedGrant_v1_refuses_continueAfterResponse:
  "continueAfterResponse cfg \<Longrightarrow>
   PreApprovedGrant_v1 token now' env cfg pa =
     ((PreApprovedGrant_init now' env cfg pa)\<lparr>grantType := Some ''preApproved''\<rparr>,
      Thrown (Error ''continueAfterResponse option incompatible to preApproved''))"
  by (simp add: PreApprovedGrant_v1_def PreApprovedGrant_init_def Let_def)

theorem PreApprovedGrant_v1_refuses_continueAfterResponse_witness:
  "continueAfterResponse (demo_config\<lparr>continueAfterResponse := True\<rparr>) \<and>
   snd (PreApprovedGrant_v1 demo_token 1000 []
          (demo_config\<lparr>continueAfterResponse := True\<rparr>) demo_pre_approved)
     = Thrown (Error ''continueAfterResponse option incompatible to preApproved'') \<and>
   calls (fst (PreApprovedGrant_v1 demo_token 1000 []
                 (demo_config\<lparr>continueAfterResponse := True\<rparr>) demo_pre_approved)) = []"
  using PreApprovedGrant_v1_refuses_continueAfterResponse
          [of "demo_config\<lparr>continueAfterResponse := True\<rparr>" demo_token 1000 "[]"
              demo_pre_approved]
  by (simp add: demo_defs PreApprovedGrant_init_def)

section \<open>Reissue markers\<close>

text \<open>
  Claim C7. A reissue marker carries an existing token string: it is an object whose
  \<^verbatim>\<open>accessToken\<close> field holds a token \<open>x\<close>, a non-empty string (the save step
  recognises the marker by the truthiness of that field). If the generated access token
  is such a marker, the save step makes no call to the storage model and leaves the
  plain string \<open>x\<close> as the context's access token; likewise for a refresh token marker,
  whose \<^verbatim>\<open>refreshToken\<close> field holds the token, and the refresh token save step. (The
  context the step returns differs from the one it was given in the token alone: the
  list of storage calls is the same.)
\<close>

theorem reissue_marker_skips_save:
  "(accessToken this = JObj kvs \<and> map_of kvs ''accessToken'' = Some (JStr x) \<and> x \<noteq> []
     \<longrightarrow> saveAccessToken this = (this\<lparr>accessToken := JStr x\<rparr>, (done_ok :: 'r outcome))) \<and>
   (refreshToken this = JObj kvs \<and> map_of kvs ''refreshToken'' = Some (JStr x) \<and> x \<noteq> []
     \<longrightarrow> saveRefreshToken this = (this\<lparr>refreshToken := JStr x\<rparr>, (done_ok :: 'r outcome)))"
  by (simp add: saveAccessToken_def saveRefreshToken_def Let_def)

theorem reissue_marker_skips_save_witness:
  "saveAccessToken (demo_grant demo_config (JObj [(''accessToken'', JStr ''X'')]) JUndefined)
     = (demo_grant demo_config (JStr ''X'') JUndefined,
        Called (Val JUndefined) (None :: response option)) \<and>
   saveRefreshToken (demo_grant demo_config (JStr ''at-1'') (JObj [(''refreshToken'', JStr ''X'')]))
     = (demo_grant demo_config (JStr ''at-1'') (JStr ''X''),
        Called (Val JUndefined) (None :: response option))"
  using reissue_marker_skips_save
          [of "demo_grant demo_config (JObj [(''accessToken'', JStr ''X'')]) JUndefined"
              "[(''accessToken'', JStr ''X'')]" "''X''", where ?'r = response]
        reissue_marker_skips_save
          [of "demo_grant demo_config (JStr ''at-1'') (JObj [(''refreshToken'', JStr ''X'')])"
              "[(''refreshToken'', JStr ''X'')]" "''X''", where ?'r = response]
  by (simp add: demo_defs done_ok_def)

text \<open>
  An object whose \<^verbatim>\<open>accessToken\<close> field holds the empty string carries no token and
  is no marker: the save step persists it like any other generated value.
\<close>

lemma object_without_token_is_persisted:
  "saveAccessToken (demo_grant demo_config (JObj [(''accessToken'', JStr [])]) JUndefined)
     = ((demo_grant demo_config (JObj [(''accessToken'', JStr [])]) JUndefined)
          \<lparr>calls := [(SaveAccessToken (JObj [(''accessToken'', JStr [])]) (Some ''app'')
                        (DTime 3601000) (JObj [(''id'', JNum 7)]) (Some ''password''), JNull)]\<rparr>,
        Called (Val JUndefined) (None :: response option))"
  by (simp add: step_defs demo_defs)

section \<open>Expired refresh tokens\<close>

text \<open>
  Claim C8. An admitted request of grant type \<^verbatim>\<open>refresh_token\<close> presents a refresh
  token for which the storage model returns, without error, a record of the same client
  whose expiry is a time strictly before \<^verbatim>\<open>now\<close>. Then the final callback receives
  \<^verbatim>\<open>invalid_grant\<close> with the message "Refresh token has expired", and the storage
  model has been called three times in all: for the client, for the allowance of the
  grant type and for the refresh token. Neither of the save operations nor the revocation
  is among the calls.
\<close>

theorem expired_refresh_token_rejected:
  assumes "admitted cfg rq ''refresh_token'' cl"
    and "payload rq = Some p" and "p ''refresh_token'' = Some tok" and "tok \<noteq> []"
    and "getRefreshToken (model cfg) tok = (err, Some rt)" and "\<not> truthy err"
    and "rec_clientId rt = js_of_str (clientId cl)"
    and "rec_expires rt = DTime t" and "t < now'"
  shows "Grant token now' env cfg rq =
           (log_call (GetRefreshToken tok) err (at_dispatch now' env cfg rq ''refresh_token'' cl),
            Next (OAuth2Error (JStr ''invalid_grant'') (JStr ''Refresh token has expired'')
                    JUndefined) None) \<and>
         map fst (calls (fst (Grant token now' env cfg rq))) =
           [GetClient (clientId cl) (clientSecret cl),
            GrantTypeAllowed (clientId cl) (Some ''refresh_token''),
            GetRefreshToken tok]"
proof -
  let ?d = "at_dispatch now' env cfg rq ''refresh_token'' cl"
  have "checkGrantType ?d =
          (log_call (GetRefreshToken tok) err ?d,
           Called (OAuth2Error (JStr ''invalid_grant'') (JStr ''Refresh token has expired'')
                     JUndefined) (None :: response option))"
    using assms(2-)
    by (simp add: checkGrantType_def useRefreshTokenGrant_def at_dispatch_def Grant_init_def
          Let_def log_call_def done_err_def)
  then have "Grant token now' env cfg rq =
           (log_call (GetRefreshToken tok) err ?d,
            Next (OAuth2Error (JStr ''invalid_grant'') (JStr ''Refresh token has expired'')
                    JUndefined) None)"
    unfolding admitted_reaches_dispatch [OF assms(1)]
    by (intro run_step_err) (simp_all add: Grant_fns_def)
  then show ?thesis
    by (simp add: log_call_def at_dispatch_def)
qed

theorem expired_refresh_token_rejected_witness:
  "admitted demo_config refresh_req ''refresh_token'' (Client (Some ''app'') (Some ''s3cret'')) \<and>
   getRefreshToken (model demo_config) ''old-rt''
     = (JNull, Some \<lparr>rec_clientId = JStr ''app'', rec_expires = DTime 999,
                      rec_user = JUndefined, rec_userId = JNum 7\<rparr>) \<and>
   (999 :: int) < 1000 \<and>
   snd (Grant demo_token 1000 [] demo_config refresh_req)
     = Next (OAuth2Error (JStr ''invalid_grant'') (JStr ''Refresh token has expired'')
               JUndefined) None \<and>
   map fst (calls (fst (Grant demo_token 1000 [] demo_config refresh_req)))
     = [GetClient (Some ''app'') (Some ''s3cret''),
        GrantTypeAllowed (Some ''app'') (Some ''refresh_token''),
        GetRefreshToken ''old-rt'']"
proof -
  have a: "admitted demo_config refresh_req ''refresh_token''
             (Client (Some ''app'') (Some ''s3cret''))"
    by (simp add: admitted_def step_defs demo_defs)
  have g: "getRefreshToken (model demo_config) ''old-rt''
     = (JNull, Some \<lparr>rec_clientId = JStr ''app'', rec_expires = DTime 999,
                      rec_user = JUndefined, rec_userId = JNum 7\<rparr>)"
    by (simp add: demo_defs)
  have p: "payload refresh_req = Some (map_of [(''grant_type'', ''refresh_token''),
     (''client_id'', ''app''), (''client_secret'', ''s3cret''), (''refresh_token'', ''old-rt'')])"
    by (simp add: demo_defs)
  from expired_refresh_token_rejected [OF a p _ _ g, of 999 1000 demo_token "[]"] a g
  show ?thesis
    by (simp add: Client_def js_of_str_def log_call_def at_dispatch_def)
qed

section \<open>A null expiry: authorization codes against refresh tokens\<close>

text \<open>
  Claim C9. An admitted \<^verbatim>\<open>authorization_code\<close> request presents a code for which the
  storage model returns, without error, a record of the same client whose expiry is
  null. The comparison \<^verbatim>\<open>authCode.expires < now\<close> reads null as 0, and the clock is past
  the epoch (\<open>0 < now\<close>): the final callback receives \<^verbatim>\<open>invalid_grant\<close>, "Code has
  expired". An admitted \<^verbatim>\<open>refresh_token\<close> request whose record has a null expiry
  passes the expiry check: if the record names a user and the revocation (where the
  storage model has one) reports no error, the dispatch step sets the user and the
  pipeline goes on with its sixth step.
\<close>

theorem null_expiry_expires_code_not_refresh_token:
  "(admitted cfg rq ''authorization_code'' cl \<and>
    payload rq = Some p \<and> p ''code'' = Some code \<and> code \<noteq> [] \<and>
    getAuthCode (model cfg) code = (err, Some ac) \<and> \<not> truthy err \<and>
    rec_clientId ac = js_of_str (clientId cl) \<and> rec_expires ac = DNull \<and> 0 < now'
    \<longrightarrow> Grant token now' env cfg rq =
          (log_call (GetAuthCode code) err
             (at_dispatch now' env cfg rq ''authorization_code'' cl),
           Next (OAuth2Error (JStr ''invalid_grant'') (JStr ''Code has expired'') JUndefined)
             None))
   \<and>
   (admitted cfg rq ''refresh_token'' cl \<and>
    payload rq = Some p \<and> p ''refresh_token'' = Some tok \<and> tok \<noteq> [] \<and>
    getRefreshToken (model cfg) tok = (err, Some rt) \<and> \<not> truthy err \<and>
    rec_clientId rt = js_of_str (clientId cl) \<and> rec_expires rt = DNull \<and>
    (truthy (rec_user rt) \<or> truthy (rec_userId rt)) \<and>
    (case revokeRefreshToken (model cfg) of None \<Rightarrow> True | Some revoke \<Rightarrow> \<not> truthy (revoke tok))
    \<longrightarrow> Grant token now' env cfg rq =
          run (Grant_fns token) 5
            (let this = (log_call (GetRefreshToken tok) err
                           (at_dispatch now' env cfg rq ''refresh_token'' cl))
                          \<lparr>user := js_or (rec_user rt) (JObj [(''id'', rec_userId rt)])\<rparr>
             in case revokeRefreshToken (model cfg) of
                  None \<Rightarrow> this
                | Some revoke \<Rightarrow> log_call (RevokeRefreshToken tok) (revoke tok) this))"
proof (intro conjI impI)
  assume h: "admitted cfg rq ''authorization_code'' cl \<and>
    payload rq = Some p \<and> p ''code'' = Some code \<and> code \<noteq> [] \<and>
    getAuthCode (model cfg) code = (err, Some ac) \<and> \<not> truthy err \<and>
    rec_clientId ac = js_of_str (clientId cl) \<and> rec_expires ac = DNull \<and> 0 < now'"
  let ?d = "at_dispatch now' env cfg rq ''authorization_code'' cl"
  have "checkGrantType ?d =
          (log_call (GetAuthCode code) err ?d,
           Called (OAuth2Error (JStr ''invalid_grant'') (JStr ''Code has expired'') JUndefined)
             (None :: response option))"
    using h
    by (simp add: checkGrantType_def useAuthCodeGrant_def at_dispatch_def Grant_init_def
          Let_def log_call_def done_err_def)
  then have "run (Grant_fns token) 4 ?d =
          (log_call (GetAuthCode code) err ?d,
           Next (OAuth2Error (JStr ''invalid_grant'') (JStr ''Code has expired'') JUndefined)
             None)"
    by (intro run_step_err) (simp_all add: Grant_fns_def)
  moreover have "Grant token now' env cfg rq = run (Grant_fns token) 4 ?d"
    using h by (simp add: admitted_reaches_dispatch)
  ultimately show "Grant token now' env cfg rq =
          (log_call (GetAuthCode code) err ?d,
           Next (OAuth2Error (JStr ''invalid_grant'') (JStr ''Code has expired'') JUndefined)
             None)"
    by simp
next
  assume h: "admitted cfg rq ''refresh_token'' cl \<and>
    payload rq = Some p \<and> p ''refresh_token'' = Some tok \<and> tok \<noteq> [] \<and>
    getRefreshToken (model cfg) tok = (err, Some rt) \<and> \<not> truthy err \<and>
    rec_clientId rt = js_of_str (clientId cl) \<and> rec_expires rt = DNull \<and>
    (truthy (rec_user rt) \<or> truthy (rec_userId rt)) \<and>
    (case revokeRefreshToken (model cfg) of None \<Rightarrow> True | Some revoke \<Rightarrow> \<not> truthy (revoke tok))"
  let ?d = "at_dispatch now' env cfg rq ''refresh_token'' cl"
  let ?next = "let this = (log_call (GetRefreshToken tok) err ?d)
                             \<lparr>user := js_or (rec_user rt) (JObj [(''id'', rec_userId rt)])\<rparr>
               in case revokeRefreshToken (model cfg) of
                    None \<Rightarrow> this
                  | Some revoke \<Rightarrow> log_call (RevokeRefreshToken tok) (revoke tok) this"
  have "checkGrantType ?d = (?next, Called (Val JUndefined) (None :: response option))"
    using h
    by (auto simp: checkGrantType_def useRefreshTokenGrant_def at_dispatch_def Grant_init_def
          Let_def log_call_def done_err_def done_ok_def split: option.splits)
  then have "run (Grant_fns token) 4 ?d = run (Grant_fns token) (Suc 4) ?next"
    by (intro run_step_ok [where e = "Val JUndefined" and r = None])
       (simp_all add: Grant_fns_def)
  moreover have "Grant token now' env cfg rq = run (Grant_fns token) 4 ?d"
    using h by (simp add: admitted_reaches_dispatch)
  ultimately show "Grant token now' env cfg rq = run (Grant_fns token) 5 ?next"
    by simp
qed

theorem null_expiry_expires_code_not_refresh_token_witness:
  "admitted demo_config code_req ''authorization_code'' (Client (Some ''app'') (Some ''s3cret'')) \<and>
   getAuthCode (model demo_config) ''c0de''
     = (JNull, Some \<lparr>rec_clientId = JStr ''app'', rec_expires = DNull,
                      rec_user = JUndefined, rec_userId = JNum 7\<rparr>) \<and>
   snd (Grant demo_token 1000 [] demo_config code_req)
     = Next (OAuth2Error (JStr ''invalid_grant'') (JStr ''Code has expired'') JUndefined) None \<and>
   admitted demo_config_null_refresh refresh_req ''refresh_token''
     (Client (Some ''app'') (Some ''s3cret'')) \<and>
   getRefreshToken (model demo_config_null_refresh) ''old-rt''
     = (JNull, Some \<lparr>rec_clientId = JStr ''app'', rec_expires = DNull,
                      rec_user = JUndefined, rec_userId = JNum 7\<rparr>) \<and>
   user (fst (Grant demo_token 1000 [] demo_config_null_refresh refresh_req))
     = JObj [(''id'', JNum 7)] \<and>
   res (fst (Grant demo_token 1000 [] demo_config_null_refresh refresh_req))
     = [\<lparr>token_type = ''bearer'', access_token = JStr ''at-1'',
         expires_in = Some (LSeconds 3600), refresh_token = Some (JStr ''rt-1'')\<rparr>]"
proof -
  let ?cl = "Client (Some ''app'') (Some ''s3cret'')"
  have a1: "admitted demo_config code_req ''authorization_code'' ?cl"
    by (simp add: admitted_def step_defs demo_defs)
  have g1: "getAuthCode (model demo_config) ''c0de''
     = (JNull, Some \<lparr>rec_clientId = JStr ''app'', rec_expires = DNull,
                      rec_user = JUndefined, rec_userId = JNum 7\<rparr>)"
    by (simp add: demo_defs)
  have p1: "payload code_req = Some (map_of [(''grant_type'', ''authorization_code''),
     (''client_id'', ''app''), (''client_secret'', ''s3cret''), (''code'', ''c0de'')])"
    by (simp add: demo_defs)
  have a2: "admitted demo_config_null_refresh refresh_req ''refresh_token'' ?cl"
    by (simp add: admitted_def step_defs demo_defs)
  have g2: "getRefreshToken (model demo_config_null_refresh) ''old-rt''
     = (JNull, Some \<lparr>rec_clientId = JStr ''app'', rec_expires = DNull,
                      rec_user = JUndefined, rec_userId = JNum 7\<rparr>)"
    by (simp add: demo_defs)
  have p2: "payload refresh_req = Some (map_of [(''grant_type'', ''refresh_token''),
     (''client_id'', ''app''), (''client_secret'', ''s3cret''), (''refresh_token'', ''old-rt'')])"
    by (simp add: demo_defs)
  have v2: "revokeRefreshToken (model demo_config_null_refresh) = Some (\<lambda>t. JNull)"
    by (simp add: demo_defs)
  from null_expiry_expires_code_not_refresh_token
         [where cfg = demo_config and rq = code_req and cl = ?cl and code = "''c0de''"
            and p = "map_of [(''grant_type'', ''authorization_code''),
                       (''client_id'', ''app''), (''client_secret'', ''s3cret''),
                       (''code'', ''c0de'')]"
            and err = JNull and now' = 1000 and token = demo_token and env = "[]"
            and ac = "\<lparr>rec_clientId = JStr ''app'', rec_expires = DNull,
                      rec_user = JUndefined, rec_userId = JNum 7\<rparr>",
          THEN conjunct1]
       a1 g1 p1
  have r1: "snd (Grant demo_token 1000 [] demo_config code_req)
     = Next (OAuth2Error (JStr ''invalid_grant'') (JStr ''Code has expired'') JUndefined) None"
    by (simp add: Client_def js_of_str_def)
  from null_expiry_expires_code_not_refresh_token
         [where cfg = demo_config_null_refresh and rq = refresh_req and cl = ?cl
            and tok = "''old-rt''"
            and p = "map_of [(''grant_type'', ''refresh_token''),
                       (''client_id'', ''app''), (''client_secret'', ''s3cret''),
                       (''refresh_token'', ''old-rt'')]"
            and err = JNull and now' = 1000 and token = demo_token and env = "[]"
            and rt = "\<lparr>rec_clientId = JStr ''app'', rec_expires = DNull,
                      rec_user = JUndefined, rec_userId = JNum 7\<rparr>",
          THEN conjunct2]
       a2 g2 p2 v2
  have r2: "Grant demo_token 1000 [] demo_config_null_refresh refresh_req =
          run (Grant_fns demo_token) 5
            (log_call (RevokeRefreshToken ''old-rt'') JNull
               ((log_call (GetRefreshToken ''old-rt'') JNull
                           (at_dispatch 1000 [] demo_config_null_refresh refresh_req
                              ''refresh_token'' ?cl))
                          \<lparr>user := JObj [(''id'', JNum 7)]\<rparr>))"
    by (simp add: Client_def js_of_str_def js_or_def)
  have r3: "user (fst (Grant demo_token 1000 [] demo_config_null_refresh refresh_req))
              = JObj [(''id'', JNum 7)]"
    unfolding r2
    by (simp add: Grant_fns_def run.simps step_defs demo_defs at_dispatch_def)
  have r4: "res (fst (Grant demo_token 1000 [] demo_config_null_refresh refresh_req))
     = [\<lparr>token_type = ''bearer'', access_token = JStr ''at-1'',
         expires_in = Some (LSeconds 3600), refresh_token = Some (JStr ''rt-1'')\<rparr>]"
    unfolding r2
    by (simp add: Grant_fns_def run.simps step_defs demo_defs at_dispatch_def)
  from a1 g1 r1 a2 g2 r3 r4 show ?thesis by simp
qed

section \<open>The completion callback of a Grant\<close>

text \<open>
  What \<^verbatim>\<open>sendResponse\<close> does: it throws and leaves the grant object alone, or it hands
  a response to the transport and calls back exactly when \<^verbatim>\<open>continueAfterResponse\<close>
  is set.
\<close>

lemma sendResponse_outcome:
  fixes c :: "'a grant_scheme"
  assumes "sendResponse c = (c', (out :: 'r outcome))"
  shows "(\<exists>x. out = Threw x \<and> c' = c) \<or>
         (res c' \<noteq> [] \<and> config c' = config c \<and> clientModel c' = clientModel c \<and>
          req c' = req c \<and>
          out = (if continueAfterResponse (config c) then done_ok else NotCalled))"
proof (cases "accessTokenLifetime (config c) = LNull")
  case True
  with assms show ?thesis by (auto simp: sendResponse_def Let_def)
next
  case nn: False
  show ?thesis
  proof (cases "client c")
    case None
    with nn assms show ?thesis by (auto simp: sendResponse_def Let_def)
  next
    case (Some cl)
    show ?thesis
    proof (cases "lifetime_index (accessTokenLifetime (config c)) (key_of (clientId cl))")
      case (Inl x)
      with nn Some assms show ?thesis by (auto simp: sendResponse_def Let_def)
    next
      case (Inr entry)
      with nn Some assms show ?thesis
        by (cases entry) (auto simp: sendResponse_def Let_def)
    qed
  qed
qed

text \<open>
  Claim C10. Whatever the request, the storage model and the token generator: if the
  completion callback of a Grant is invoked, then with an error, or under
  \<^verbatim>\<open>continueAfterResponse\<close>. If a response has been handed to the transport (the
  request has succeeded), the completion callback is never invoked when
  \<^verbatim>\<open>continueAfterResponse\<close> is false, and is invoked without error when it is true.
\<close>

theorem completion_callback_only_on_error_or_continue:
  "(\<forall>e r. snd (Grant token now' env cfg rq) = Next e r
           \<longrightarrow> truthy_err e \<or> continueAfterResponse cfg) \<and>
   (res (fst (Grant token now' env cfg rq)) \<noteq> []
      \<longrightarrow> snd (Grant token now' env cfg rq)
            = (if continueAfterResponse cfg then Next (Val JNull) None else Pending))"
proof -
  define I :: "grant \<Rightarrow> bool" where "I c = (config c = cfg \<and> res c = [])" for c
  define Q :: "grant \<times> response final \<Rightarrow> bool" where
    "Q x = ((\<forall>e r. snd x = Next e r \<longrightarrow> truthy_err e \<or> continueAfterResponse cfg) \<and>
            (res (fst x) \<noteq> []
               \<longrightarrow> snd x = (if continueAfterResponse cfg then Next (Val JNull) None
                             else Pending)))" for x
  let ?fns = "Grant_fns token :: (grant, response) step list"
  have len: "length ?fns = 11" by (simp add: Grant_fns_def)
  have "Q (run ?fns 0 (Grant_init now' env cfg rq))"
  proof (rule run_rule [where I = I])
    show "I (Grant_init now' env cfg rq)" by (simp add: I_def Grant_init_def)
    show "0 < length ?fns" by (simp add: len)
  next
    fix k c c' out
    assume k: "k < length ?fns - 1" and i: "I c" and f: "(?fns ! k) c = (c', out)"
    from k have "?fns ! k \<in> set (butlast ?fns)" by (rule nth_in_butlast)
    with keeps_before_sendResponse have "keeps (?fns ! k)" by blast
    then have "config (fst ((?fns ! k) c)) = config c \<and> res (fst ((?fns ! k) c)) = res c"
      unfolding keeps_def by blast
    with f i have i': "I c'" by (simp add: I_def)
    then show "case out of
            Called e r \<Rightarrow> if truthy_err e then Q (c', Next e None) else I c'
          | NotCalled \<Rightarrow> Q (c', Pending)
          | Threw x \<Rightarrow> Q (c', Thrown x)"
      by (cases out) (simp_all add: Q_def I_def)
  next
    fix c c' out
    assume i: "I c" and f: "(?fns ! (length ?fns - 1)) c = (c', out)"
    have "?fns ! (length ?fns - 1) = sendResponse" by (simp add: Grant_fns_def)
    with f have s: "sendResponse c = (c', out)" by simp
    from sendResponse_outcome [OF s] i
    show "case out of
            Called e r \<Rightarrow> if truthy_err e then Q (c', Next e None)
                          else Q (c', Next (Val JNull) r)
          | NotCalled \<Rightarrow> Q (c', Pending)
          | Threw x \<Rightarrow> Q (c', Thrown x)"
      by (cases out) (auto simp: Q_def I_def done_ok_def split: if_splits)
  qed
  then show ?thesis by (simp add: Q_def Grant_def runner_def)
qed


theorem completion_callback_only_on_error_or_continue_witness:
  "\<not> continueAfterResponse demo_config \<and>
   res (fst (Grant demo_token 1000 [] demo_config password_req))
     = [\<lparr>token_type = ''bearer'', access_token = JStr ''at-1'',
         expires_in = Some (LSeconds 3600), refresh_token = Some (JStr ''rt-1'')\<rparr>] \<and>
   snd (Grant demo_token 1000 [] demo_config password_req) = Pending \<and>
   snd (Grant demo_token 1000 [] demo_config refresh_req)
     = Next (OAuth2Error (JStr ''invalid_grant'') (JStr ''Refresh token has expired'')
               JUndefined) None \<and>
   truthy_err (OAuth2Error (JStr ''invalid_grant'') (JStr ''Refresh token has expired'')
                 JUndefined)"
proof -
  have sent: "res (fst (Grant demo_token 1000 [] demo_config password_req))
     = [\<lparr>token_type = ''bearer'', access_token = JStr ''at-1'',
         expires_in = Some (LSeconds 3600), refresh_token = Some (JStr ''rt-1'')\<rparr>]"
    by (simp add: Grant_def Grant_fns_def runner_def run.simps step_defs demo_defs)
  have off: "\<not> continueAfterResponse demo_config" by (simp add: demo_config_def)
  from completion_callback_only_on_error_or_continue
         [of demo_token 1000 "[]" demo_config password_req] sent off
  have pending: "snd (Grant demo_token 1000 [] demo_config password_req) = Pending"
    by simp
  have failed: "snd (Grant demo_token 1000 [] demo_config refresh_req)
     = Next (OAuth2Error (JStr ''invalid_grant'') (JStr ''Refresh token has expired'')
               JUndefined) None"
    by (simp add: Grant_def Grant_fns_def runner_def run.simps step_defs demo_defs)
  from completion_callback_only_on_error_or_continue
         [of demo_token 1000 "[]" demo_config refresh_req] failed off
  have "truthy_err (OAuth2Error (JStr ''invalid_grant'') (JStr ''Refresh token has expired'')
                      JUndefined)"
    by blast
  with sent off pending failed show ?thesis by simp
qed

section \<open>The client record is not exposed\<close>

text \<open>
  Claim C1 (the code departs from it). Whatever the request, the storage model and the
  token generator, the \<^verbatim>\<open>clientModel\<close> of the grant object is undefined when the
  pipeline ends, and \<^verbatim>\<open>req.app.oauth\<close> is what the request came with or an object
  whose \<^verbatim>\<open>client\<close> is undefined: the record that the storage model returned for the
  client is never attached to the grant object and never exposed.
\<close>

theorem client_record_never_attached:
  "clientModel (fst (Grant token now' env cfg rq)) = JUndefined \<and>
   (app_oauth (req (fst (Grant token now' env cfg rq))) = app_oauth rq \<or>
    app_oauth (req (fst (Grant token now' env cfg rq))) = JObj [(''client'', JUndefined)])"
proof -
  define I :: "grant \<Rightarrow> bool" where
    "I c = (clientModel c = JUndefined \<and>
            (app_oauth (req c) = app_oauth rq \<or>
             app_oauth (req c) = JObj [(''client'', JUndefined)]))" for c
  define Q :: "grant \<times> response final \<Rightarrow> bool" where "Q x = I (fst x)" for x
  let ?fns = "Grant_fns token :: (grant, response) step list"
  have "Q (run ?fns 0 (Grant_init now' env cfg rq))"
  proof (rule run_rule [where I = I])
    show "I (Grant_init now' env cfg rq)" by (simp add: I_def Grant_init_def)
    show "0 < length ?fns" by (simp add: Grant_fns_def)
  next
    fix k c c' out
    assume k: "k < length ?fns - 1" and i: "I c" and f: "(?fns ! k) c = (c', out)"
    from k have "?fns ! k \<in> set (butlast ?fns)" by (rule nth_in_butlast)
    with keeps_before_sendResponse have "keeps (?fns ! k)" by blast
    then have "clientModel (fst ((?fns ! k) c)) = clientModel c \<and>
          (app_oauth (req (fst ((?fns ! k) c))) = app_oauth (req c) \<or>
           app_oauth (req (fst ((?fns ! k) c))) = JObj [(''client'', clientModel c)])"
      unfolding keeps_def by blast
    with f i have i': "I c'" by (auto simp: I_def)
    then show "case out of
            Called e r \<Rightarrow> if truthy_err e then Q (c', Next e None) else I c'
          | NotCalled \<Rightarrow> Q (c', Pending)
          | Threw x \<Rightarrow> Q (c', Thrown x)"
      by (cases out) (simp_all add: Q_def)
  next
    fix c c' out
    assume i: "I c" and f: "(?fns ! (length ?fns - 1)) c = (c', out)"
    have "?fns ! (length ?fns - 1) = sendResponse" by (simp add: Grant_fns_def)
    with f have s: "sendResponse c = (c', out)" by simp
    from sendResponse_outcome [OF s] i have "I c'" by (auto simp: I_def)
    then show "case out of
            Called e r \<Rightarrow> if truthy_err e then Q (c', Next e None)
                          else Q (c', Next (Val JNull) r)
          | NotCalled \<Rightarrow> Q (c', Pending)
          | Threw x \<Rightarrow> Q (c', Thrown x)"
      by (cases out) (simp_all add: Q_def)
  qed
  then show ?thesis by (simp add: Q_def I_def Grant_def runner_def)
qed


text \<open>
  An instance: a password request of the client \<^verbatim>\<open>app\<close> runs through the whole
  pipeline of \<open>demo_config\<close>. The storage model is asked for the client and returns its
  record without error. The record lands on the receiver of the storage callback.
\<close>

lemma client_record_not_exposed_example:
  "(GetClient (Some ''app'') (Some ''s3cret''), JNull)
      \<in> set (calls (fst (Grant demo_token 1000 [] demo_config password_req))) \<and>
   getClient (model demo_config) (Some ''app'') (Some ''s3cret'')
     = (JNull, JObj [(''name'', JStr ''The App'')]) \<and>
   clientModel (fst (Grant demo_token 1000 [] demo_config password_req)) = JUndefined \<and>
   app_oauth (req (fst (Grant demo_token 1000 [] demo_config password_req)))
     = JObj [(''client'', JUndefined)] \<and>
   callbackThis (fst (Grant demo_token 1000 [] demo_config password_req))
     = [(''clientModel'', JObj [(''name'', JStr ''The App'')])]"
  by (simp add: Grant_def Grant_fns_def runner_def run.simps step_defs demo_defs)

section \<open>Errors of the storage model\<close>

lemma quiet_append [simp]: "quiet (cs @ ds) = (quiet cs \<and> quiet ds)"
  by (auto simp: quiet_def)

lemma quiet_Cons [simp]: "quiet ((k, err) # cs) = (\<not> truthy err \<and> quiet cs)"
  by (auto simp: quiet_def)

lemma quiet_Nil [simp]: "quiet []"
  by (simp add: quiet_def)

lemmas reports_simps = reports_def Let_def log_call_def done_err_def done_ok_def surfaced_def
  butlast_append last_append

lemma reports_extractCredentials:
  "reports (extractCredentials :: ('a grant_scheme, 'r) step)"
  by (simp add: reports_simps extractCredentials_def split: sum.split)

lemma reports_checkClient: "reports (checkClient :: ('a grantBase_scheme, 'r) step)"
  by (simp add: reports_simps checkClient_def split: option.split prod.split)

lemma reports_exposeClient: "reports (exposeClient :: ('a grant_scheme, 'r) step)"
  by (simp add: reports_simps exposeClient_def)

lemma reports_checkGrantTypeAllowed:
  "reports (checkGrantTypeAllowed :: ('a grant_scheme, 'r) step)"
  by (simp add: reports_simps checkGrantTypeAllowed_def split: option.split prod.split)

lemma reports_usePasswordGrant: "reports (usePasswordGrant :: ('a grant_scheme, 'r) step)"
  by (simp add: reports_simps usePasswordGrant_def split: option.split prod.split)

lemma reports_useClientCredentialsGrant:
  "reports (useClientCredentialsGrant :: ('a grant_scheme, 'r) step)"
  by (simp add: reports_simps useClientCredentialsGrant_def split: option.split prod.split)
     blast

lemma reports_useExtendedGrant: "reports (useExtendedGrant :: ('a grant_scheme, 'r) step)"
  by (simp add: reports_simps useExtendedGrant_def split: option.split prod.split)

lemma reports_exposeUser: "reports (exposeUser :: ('a grant_scheme, 'r) step)"
  by (simp add: reports_simps exposeUser_def)

lemma reports_generateAccessToken:
  "reports (generateAccessToken token :: ('a grantBase_scheme, 'r) step)"
  by (simp add: reports_simps generateAccessToken_def split: prod.split)

lemma reports_generateRefreshToken:
  "reports (generateRefreshToken token :: ('a grantBase_scheme, 'r) step)"
  by (simp add: reports_simps generateRefreshToken_def split: prod.split)

lemma reports_saveAccessToken: "reports (saveAccessToken :: ('a grantBase_scheme, 'r) step)"
  by (simp add: reports_simps saveAccessToken_def split: option.split sum.split)

lemma reports_saveRefreshToken: "reports (saveRefreshToken :: ('a grantBase_scheme, 'r) step)"
  by (simp add: reports_simps saveRefreshToken_def split: option.split sum.split)

lemma reports_useAuthCodeGrant: "reports (useAuthCodeGrant :: ('a grant_scheme, 'r) step)"
  by (simp add: reports_simps useAuthCodeGrant_def split: option.split prod.split)

lemma reports_useRefreshTokenGrant:
  "reports (useRefreshTokenGrant :: ('a grant_scheme, 'r) step)"
  by (simp add: reports_simps useRefreshTokenGrant_def split: option.split prod.split)

lemma reports_sendResponse: "reports (sendResponse :: ('a grant_scheme, 'r) step)"
  by (simp add: reports_simps sendResponse_def split: option.split sum.split)

lemma reports_checkGrantType: "reports (checkGrantType :: ('a grant_scheme, 'r) step)"
  unfolding reports_def
proof (intro allI impI)
  fix c :: "'a grant_scheme"
  assume q: "quiet (calls c)"
  let ?f = "checkGrantType :: ('a grant_scheme, 'r) step"
  show "quiet (calls (fst (?f c))) \<or>
        (calls (fst (?f c)) \<noteq> [] \<and> quiet (butlast (calls (fst (?f c)))) \<and>
         snd (?f c) = Called (surfaced (fst (last (calls (fst (?f c)))))
                                (snd (last (calls (fst (?f c)))))) None)"
  proof (cases "grantType c")
    case None
    with q show ?thesis by (simp add: checkGrantType_def)
  next
    case (Some gt)
    from checkGrantType_cases [OF Some, where ?'r = 'r]
    consider "?f c = useExtendedGrant c" | "?f c = useAuthCodeGrant c"
      | "?f c = usePasswordGrant c" | "?f c = useRefreshTokenGrant c"
      | "?f c = useClientCredentialsGrant c"
      | "?f c = (c, done_err (OAuth2Error (JStr ''invalid_request'')
               (JStr ''Invalid grant_type parameter or parameter missing'') JUndefined))"
      by blast
    then show ?thesis
    proof cases
      case 1
      with q reports_useExtendedGrant [where ?'r = 'r and ?'a = 'a] show ?thesis
        unfolding reports_def by simp
    next
      case 2
      with q reports_useAuthCodeGrant [where ?'r = 'r and ?'a = 'a] show ?thesis
        unfolding reports_def by simp
    next
      case 3
      with q reports_usePasswordGrant [where ?'r = 'r and ?'a = 'a] show ?thesis
        unfolding reports_def by simp
    next
      case 4
      with q reports_useRefreshTokenGrant [where ?'r = 'r and ?'a = 'a] show ?thesis
        unfolding reports_def by simp
    next
      case 5
      with q reports_useClientCredentialsGrant [where ?'r = 'r and ?'a = 'a] show ?thesis
        unfolding reports_def by simp
    next
      case 6
      with q show ?thesis by simp
    qed
  qed
qed

lemma reports_extractPreApprovedCredentials:
  "reports (extractPreApprovedCredentials :: ('a preApprovedGrant_scheme, 'r) step)"
  by (simp add: reports_simps extractPreApprovedCredentials_def)

lemma reports_checkGrantType_preApproved:
  "reports (checkGrantType_preApproved :: ('a preApprovedGrant_scheme, 'r) step)"
  by (simp add: reports_simps checkGrantType_preApproved_def usePreApprovedGrant_def)

lemma reports_checkClient_v1: "reports (checkClient_v1 :: ('a grantBase_scheme, 'r) step)"
  by (simp add: reports_simps checkClient_v1_def split: option.split prod.split)

lemma reports_saveAccessToken_v1:
  "reports (saveAccessToken_v1 :: ('a grantBase_scheme, 'r) step)"
  by (simp add: reports_simps saveAccessToken_v1_def split: option.split)

lemma reports_saveRefreshToken_v1:
  "reports (saveRefreshToken_v1 :: ('a grantBase_scheme, 'r) step)"
  by (simp add: reports_simps saveRefreshToken_v1_def split: option.split)

lemma reports_returnPreApprovedResponse_v1:
  "reports (returnPreApprovedResponse_v1 :: ('a grantBase_scheme, response) step)"
  by (simp add: reports_simps returnPreApprovedResponse_v1_def)

lemma reports_returnPreApprovedResponse:
  "reports (returnPreApprovedResponse :: ('a grantBase_scheme, response) step)"
  by (simp add: reports_simps returnPreApprovedResponse_def split: option.split sum.split)

lemma in_butlast_or_last: "x \<in> set xs \<Longrightarrow> xs \<noteq> [] \<Longrightarrow> x \<in> set (butlast xs) \<or> x = last xs"
  by (induction xs) (auto split: if_splits)

lemma surfaced_truthy [simp]: "truthy_err (surfaced k err)"
  by (cases k) (simp_all add: surfaced_def)

lemma reports_pipeline:
  fixes fns :: "('a grantBase_scheme, 'r) step list"
  assumes all: "\<forall>f\<in>set fns. reports f" and ne: "fns \<noteq> []" and q: "quiet (calls c)"
  shows "\<forall>x\<in>set (calls (fst (run fns 0 c))).
           truthy (snd x) \<longrightarrow> snd (run fns 0 c) = Next (surfaced (fst x) (snd x)) None"
proof -
  define I :: "'a grantBase_scheme \<Rightarrow> bool" where "I c = quiet (calls c)" for c
  define Q :: "'a grantBase_scheme \<times> 'r final \<Rightarrow> bool" where
    "Q y = (\<forall>x\<in>set (calls (fst y)).
              truthy (snd x) \<longrightarrow> snd y = Next (surfaced (fst x) (snd x)) None)" for y
  have quietQ: "Q (c', fin)" if "quiet (calls c')" for c' fin
    using that by (simp add: Q_def quiet_def)
  have step: "(quiet (calls c') \<or>
               (\<exists>k err. out = Called (surfaced k err) None \<and>
                  Q (c', Next (surfaced k err) None)))"
    if f: "f \<in> set fns" and i: "I c" and r: "f c = (c', out)" for f c c' out
  proof -
    from all f have "reports f" by blast
    with i r consider "quiet (calls c')"
      | "calls c' \<noteq> []" "quiet (butlast (calls c'))"
        "out = Called (surfaced (fst (last (calls c'))) (snd (last (calls c')))) None"
      unfolding reports_def I_def by fastforce
    then show ?thesis
    proof cases
      case 1
      then show ?thesis by simp
    next
      case 2
      have "Q (c', Next (surfaced (fst (last (calls c'))) (snd (last (calls c')))) None)"
        unfolding Q_def
      proof (intro ballI impI)
        fix x assume x: "x \<in> set (calls (fst (c', Next (surfaced (fst (last (calls c'))) (snd (last (calls c')))) (None :: 'r option))))"
          and t: "truthy (snd x)"
        from x have "x \<in> set (calls c')" by simp
        with 2(1) have "x \<in> set (butlast (calls c')) \<or> x = last (calls c')"
          by (intro in_butlast_or_last)
        with 2(2) t have "x = last (calls c')" by (auto simp: quiet_def)
        then show "snd (c', Next (surfaced (fst (last (calls c'))) (snd (last (calls c')))) (None :: 'r option))
                     = Next (surfaced (fst x) (snd x)) None"
          by simp
      qed
      with 2(3) show ?thesis by blast
    qed
  qed
  have "Q (run fns 0 c)"
  proof (rule run_rule [where I = I])
    show "I c" using q by (simp add: I_def)
    show "0 < length fns" using ne by simp
  next
    fix k c c' out
    assume k: "k < length fns - 1" and i: "I c" and f: "(fns ! k) c = (c', out)"
    from k have "fns ! k \<in> set fns" by simp
    from step [OF this i f] quietQ [of c']
    show "case out of
            Called e r \<Rightarrow> if truthy_err e then Q (c', Next e None) else I c'
          | NotCalled \<Rightarrow> Q (c', Pending)
          | Threw x \<Rightarrow> Q (c', Thrown x)"
      by (cases out) (auto simp: I_def)
  next
    fix c c' out
    assume i: "I c" and f: "(fns ! (length fns - 1)) c = (c', out)"
    from ne have "fns ! (length fns - 1) \<in> set fns" by simp
    from step [OF this i f] quietQ [of c']
    show "case out of
            Called e r \<Rightarrow> if truthy_err e then Q (c', Next e None)
                          else Q (c', Next (Val JNull) r)
          | NotCalled \<Rightarrow> Q (c', Pending)
          | Threw x \<Rightarrow> Q (c', Thrown x)"
      by (cases out) (auto simp: I_def)
  qed
  then show ?thesis by (simp add: Q_def)
qed


text \<open>
  Claim C6. In each of the three pipelines (the Grant and the two pre-approved grants):
  if a call of the storage model has reported an error, the final callback receives that
  error surfaced. Surfaced means \<^verbatim>\<open>server_error\<close>, without message, wrapping the
  reported error, for every storage call but the extended grant; for the extended grant
  the kind is the \<^verbatim>\<open>type\<close> of the reported error and the message its
  \<^verbatim>\<open>description\<close> or \<^verbatim>\<open>message\<close>, with \<^verbatim>\<open>server_error\<close> as the kind when the
  error names none.
\<close>

theorem storage_errors_surface_as_server_error:
  "(\<forall>x\<in>set (calls (fst (Grant token now' env cfg rq))).
      truthy (snd x) \<longrightarrow>
      snd (Grant token now' env cfg rq) = Next (surfaced (fst x) (snd x)) None) \<and>
   (\<forall>x\<in>set (calls (fst (PreApprovedGrant ptoken now' env cfg pa))).
      truthy (snd x) \<longrightarrow>
      snd (PreApprovedGrant ptoken now' env cfg pa) = Next (surfaced (fst x) (snd x)) None) \<and>
   (\<forall>x\<in>set (calls (fst (PreApprovedGrant_v1 ptoken now' env cfg pa))).
      truthy (snd x) \<longrightarrow>
      snd (PreApprovedGrant_v1 ptoken now' env cfg pa)
        = Next (surfaced (fst x) (snd x)) None) \<and>
   (\<forall>k err. (\<forall>gt. k \<noteq> ExtendedGrant gt) \<longrightarrow>
      surfaced k err = OAuth2Error (JStr ''server_error'') (JBool False) err) \<and>
   (\<forall>gt err. surfaced (ExtendedGrant gt) err =
      OAuth2Error (js_or (get_prop err ''type'') (JStr ''server_error''))
        (js_or (get_prop err ''description'') (get_prop err ''message'')) err)"
proof (intro conjI)
  have "\<forall>f\<in>set (Grant_fns token :: (grant, response) step list). reports f"
    by (simp add: Grant_fns_def reports_extractCredentials reports_checkClient
        reports_exposeClient reports_checkGrantTypeAllowed reports_checkGrantType
        reports_exposeUser reports_generateAccessToken reports_saveAccessToken
        reports_generateRefreshToken reports_saveRefreshToken reports_sendResponse)
  then show "\<forall>x\<in>set (calls (fst (Grant token now' env cfg rq))).
      truthy (snd x) \<longrightarrow>
      snd (Grant token now' env cfg rq) = Next (surfaced (fst x) (snd x)) None"
    unfolding Grant_def runner_def
    by (rule reports_pipeline) (simp_all add: Grant_fns_def Grant_init_def)
next
  have "\<forall>f\<in>set (PreApprovedGrant_fns ptoken :: (preApprovedGrant, response) step list).
          reports f"
    by (simp add: PreApprovedGrant_fns_def reports_extractPreApprovedCredentials
        reports_checkClient reports_checkGrantType_preApproved reports_generateAccessToken
        reports_saveAccessToken reports_generateRefreshToken reports_saveRefreshToken
        reports_returnPreApprovedResponse)
  then show "\<forall>x\<in>set (calls (fst (PreApprovedGrant ptoken now' env cfg pa))).
      truthy (snd x) \<longrightarrow>
      snd (PreApprovedGrant ptoken now' env cfg pa) = Next (surfaced (fst x) (snd x)) None"
    unfolding PreApprovedGrant_def runner_def Let_def
    by (rule reports_pipeline) (simp_all add: PreApprovedGrant_fns_def PreApprovedGrant_init_def)
next
  have all: "\<forall>f\<in>set (fns_v1 ptoken :: (preApprovedGrant, response) step list). reports f"
    by (simp add: fns_v1_def reports_extractPreApprovedCredentials
        reports_checkClient_v1 reports_checkGrantType_preApproved reports_generateAccessToken
        reports_saveAccessToken_v1 reports_generateRefreshToken reports_saveRefreshToken_v1
        reports_returnPreApprovedResponse_v1)
  show "\<forall>x\<in>set (calls (fst (PreApprovedGrant_v1 ptoken now' env cfg pa))).
      truthy (snd x) \<longrightarrow>
      snd (PreApprovedGrant_v1 ptoken now' env cfg pa)
        = Next (surfaced (fst x) (snd x)) None"
  proof (cases "continueAfterResponse cfg")
    case True
    then show ?thesis
      by (simp add: PreApprovedGrant_v1_def PreApprovedGrant_init_def Let_def)
  next
    case False
    have "\<forall>x\<in>set (calls (fst (run (fns_v1 ptoken) 0
                  ((PreApprovedGrant_init now' env cfg pa)\<lparr>grantType := Some ''preApproved''\<rparr>)))).
      truthy (snd x) \<longrightarrow>
      snd (run (fns_v1 ptoken) 0
             ((PreApprovedGrant_init now' env cfg pa)\<lparr>grantType := Some ''preApproved''\<rparr>))
        = Next (surfaced (fst x) (snd x)) None"
      using all by (rule reports_pipeline) (simp_all add: fns_v1_def PreApprovedGrant_init_def)
    with False show ?thesis
      by (simp add: PreApprovedGrant_v1_def PreApprovedGrant_init_def Let_def runner_def)
  qed
next
  show "\<forall>k err. (\<forall>gt. k \<noteq> ExtendedGrant gt) \<longrightarrow>
      surfaced k err = OAuth2Error (JStr ''server_error'') (JBool False) err"
    by (auto simp: surfaced_def split: call.splits)
next
  show "\<forall>gt err. surfaced (ExtendedGrant gt) err =
      OAuth2Error (js_or (get_prop err ''type'') (JStr ''server_error''))
        (js_or (get_prop err ''description'') (get_prop err ''message'')) err"
    by (simp add: surfaced_def)
qed

theorem storage_errors_surface_as_server_error_witness:
  "(GetClient (Some ''app'') (Some ''s3cret''), JStr ''db down'')
      \<in> set (calls (fst (Grant demo_token 1000 [] demo_config_db_down password_req))) \<and>
   snd (Grant demo_token 1000 [] demo_config_db_down password_req)
     = Next (OAuth2Error (JStr ''server_error'') (JBool False) (JStr ''db down'')) None \<and>
   (ExtendedGrant (Some ''urn:custom:foo''),
    JObj [(''type'', JStr ''custom_error''), (''description'', JStr ''nope'')])
      \<in> set (calls (fst (Grant demo_token 1000 [] demo_config_extended extended_req))) \<and>
   snd (Grant demo_token 1000 [] demo_config_extended extended_req)
     = Next (OAuth2Error (JStr ''custom_error'') (JStr ''nope'')
               (JObj [(''type'', JStr ''custom_error''), (''description'', JStr ''nope'')]))
         None \<and>
   (GetClient (Some ''app'') (Some ''s3cret''), JStr ''db down'')
      \<in> set (calls (fst (PreApprovedGrant demo_token 1000 [] demo_config_db_down
                            demo_pre_approved))) \<and>
   snd (PreApprovedGrant demo_token 1000 [] demo_config_db_down demo_pre_approved)
     = Next (OAuth2Error (JStr ''server_error'') (JBool False) (JStr ''db down'')) None \<and>
   (GetClient (Some ''app'') (Some ''s3cret''), JStr ''db down'')
      \<in> set (calls (fst (PreApprovedGrant_v1 demo_token 1000 [] demo_config_db_down
                            demo_pre_approved))) \<and>
   snd (PreApprovedGrant_v1 demo_token 1000 [] demo_config_db_down demo_pre_approved)
     = Next (OAuth2Error (JStr ''server_error'') (JBool False) (JStr ''db down'')) None"
proof -
  note t = storage_errors_surface_as_server_error
             [where now' = 1000 and env = "[]" and token = demo_token and ptoken = demo_token
                and pa = demo_pre_approved]
  let ?down = "(GetClient (Some ''app'') (Some ''s3cret''), JStr ''db down'')"
  let ?e = "JObj [(''type'', JStr ''custom_error''), (''description'', JStr ''nope'')]"
  have m1: "?down \<in> set (calls (fst (Grant demo_token 1000 [] demo_config_db_down password_req)))"
    by (simp add: Grant_def Grant_fns_def runner_def run.simps step_defs demo_defs)
  have m2: "(ExtendedGrant (Some ''urn:custom:foo''), ?e)
      \<in> set (calls (fst (Grant demo_token 1000 [] demo_config_extended extended_req)))"
    by (simp add: Grant_def Grant_fns_def runner_def run.simps step_defs demo_defs
          is_letter_def is_scheme_char_def)
  have m3: "?down \<in> set (calls (fst (PreApprovedGrant demo_token 1000 [] demo_config_db_down
                            demo_pre_approved)))"
    by (simp add: runner_def run.simps step_defs pre_defs demo_defs)
  have m4: "?down \<in> set (calls (fst (PreApprovedGrant_v1 demo_token 1000 [] demo_config_db_down
                            demo_pre_approved)))"
    by (simp add: runner_def run.simps step_defs pre_defs demo_defs)
  have s1: "surfaced (fst ?down) (snd ?down)
              = OAuth2Error (JStr ''server_error'') (JBool False) (JStr ''db down'')"
    using t [where cfg = demo_config and rq = password_req] by simp
  have s2: "surfaced (ExtendedGrant (Some ''urn:custom:foo'')) ?e
              = OAuth2Error (JStr ''custom_error'') (JStr ''nope'') ?e"
    using t [where cfg = demo_config and rq = password_req] by (simp add: js_or_def)
  from t [where cfg = demo_config_db_down and rq = password_req, THEN conjunct1] m1
  have r1: "snd (Grant demo_token 1000 [] demo_config_db_down password_req)
              = Next (surfaced (fst ?down) (snd ?down)) None"
    by (auto dest: bspec)
  from t [where cfg = demo_config_extended and rq = extended_req, THEN conjunct1] m2
  have r2: "snd (Grant demo_token 1000 [] demo_config_extended extended_req)
              = Next (surfaced (fst (ExtendedGrant (Some ''urn:custom:foo''), ?e))
                        (snd (ExtendedGrant (Some ''urn:custom:foo''), ?e))) None"
    by (auto dest: bspec)
  from t [where cfg = demo_config_db_down and rq = password_req,
          THEN conjunct2, THEN conjunct1] m3
  have r3: "snd (PreApprovedGrant demo_token 1000 [] demo_config_db_down demo_pre_approved)
              = Next (surfaced (fst ?down) (snd ?down)) None"
    by (auto dest: bspec)
  from t [where cfg = demo_config_db_down and rq = password_req,
          THEN conjunct2, THEN conjunct2, THEN conjunct1] m4
  have r4: "snd (PreApprovedGrant_v1 demo_token 1000 [] demo_config_db_down demo_pre_approved)
              = Next (surfaced (fst ?down) (snd ?down)) None"
    by (auto dest: bspec)
  from m1 m2 m3 m4 r1 r2 r3 r4 s1 s2 show ?thesis by simp
qed


section \<open>The id of the resolved user\<close>

text \<open>
  Claim C2, as stated, fails for the password grant: the storage model returns a user
  record without an id, the dispatch step takes it as the user, and the access token is
  saved for it.
\<close>

theorem password_user_without_id_counterexample:
  "getUser (model demo_config) ''bob'' ''pw'' = (JNull, JObj [(''name'', JStr ''bob'')]) \<and>
   get_prop (JObj [(''name'', JStr ''bob'')]) ''id'' = JUndefined \<and>
   user (fst (Grant demo_token 1000 [] demo_config password_req))
     = JObj [(''name'', JStr ''bob'')] \<and>
   (SaveAccessToken (JStr ''at-1'') (Some ''app'') (DTime 3601000)
      (JObj [(''name'', JStr ''bob'')]) (Some ''password''), JNull)
     \<in> set (calls (fst (Grant demo_token 1000 [] demo_config password_req)))"
  by (simp add: Grant_def Grant_fns_def runner_def run.simps step_defs demo_defs)

text \<open>What the two branches that look at the id leave behind when they succeed.\<close>

lemma useAuthCodeGrant_id:
  fixes this :: "'a grant_scheme"
  shows "calls_back_ok (snd (useAuthCodeGrant this :: 'a grant_scheme \<times> 'r outcome)) \<longrightarrow>
         get_prop (user (fst (useAuthCodeGrant this :: 'a grant_scheme \<times> 'r outcome))) ''id''
           \<noteq> JUndefined"
  by (auto simp: useAuthCodeGrant_def calls_back_ok_def Let_def done_err_def done_ok_def
        log_call_def split: option.split prod.split)

lemma useExtendedGrant_id:
  fixes this :: "'a grant_scheme"
  shows "calls_back_ok (snd (useExtendedGrant this :: 'a grant_scheme \<times> 'r outcome)) \<longrightarrow>
         get_prop (user (fst (useExtendedGrant this :: 'a grant_scheme \<times> 'r outcome))) ''id''
           \<noteq> JUndefined"
  by (auto simp: useExtendedGrant_def calls_back_ok_def Let_def done_err_def done_ok_def
        log_call_def split: option.split prod.split)

text \<open>
  Claim C2, amended. (1) When the dispatch step takes the authorization code branch or
  the extended grant branch and calls back without error, the user in the context has a
  defined id. (2, 3) An authorization code record, or a refresh token record, of the
  right client and not expired, that carries neither user nor userId makes the dispatch
  step fail with \<^verbatim>\<open>server_error\<close>. (4, 5) The password and client credentials
  branches take whatever non-null user the storage model returns, without looking at
  its id.
\<close>

theorem dispatch_user_id:
  fixes this :: "'a grant_scheme"
  shows
  "(grantType this = Some gt \<and>
    (gt = ''authorization_code'' \<or>
     extension_scheme gt \<and> extendedGrant (model (config this)) \<noteq> None) \<and>
    calls_back_ok (snd (checkGrantType this :: 'a grant_scheme \<times> 'r outcome))
    \<longrightarrow> get_prop (user (fst (checkGrantType this :: 'a grant_scheme \<times> 'r outcome))) ''id''
          \<noteq> JUndefined)
   \<and>
   (grantType this = Some ''authorization_code'' \<and>
    payload (req this) = Some p \<and> p ''code'' = Some code \<and> code \<noteq> [] \<and>
    client this = Some cl \<and>
    getAuthCode (model (config this)) code = (err, Some ac) \<and> \<not> truthy err \<and>
    rec_clientId ac = js_of_str (clientId cl) \<and> \<not> date_lt (rec_expires ac) (now this) \<and>
    \<not> truthy (rec_user ac) \<and> \<not> truthy (rec_userId ac)
    \<longrightarrow> snd (checkGrantType this :: 'a grant_scheme \<times> 'r outcome) =
          done_err (OAuth2Error (JStr ''server_error'') (JBool False)
                      (JStr ''No user/userId parameter returned from getauthCode'')))
   \<and>
   (grantType this = Some ''refresh_token'' \<and>
    payload (req this) = Some p \<and> p ''refresh_token'' = Some tok \<and> tok \<noteq> [] \<and>
    client this = Some cl \<and>
    getRefreshToken (model (config this)) tok = (err, Some rt) \<and> \<not> truthy err \<and>
    rec_clientId rt = js_of_str (clientId cl) \<and>
    (rec_expires rt = DNull \<or> \<not> date_lt (rec_expires rt) (now this)) \<and>
    \<not> truthy (rec_user rt) \<and> \<not> truthy (rec_userId rt)
    \<longrightarrow> snd (checkGrantType this :: 'a grant_scheme \<times> 'r outcome) =
          done_err (OAuth2Error (JStr ''server_error'') (JBool False)
                      (JStr ''No user/userId parameter returned from getRefreshToken'')))
   \<and>
   (grantType this = Some ''password'' \<and>
    payload (req this) = Some p \<and> p ''username'' = Some uname \<and> uname \<noteq> [] \<and>
    p ''password'' = Some pword \<and> pword \<noteq> [] \<and>
    getUser (model (config this)) uname pword = (err, usr) \<and> \<not> truthy err \<and> truthy usr
    \<longrightarrow> (checkGrantType this :: 'a grant_scheme \<times> 'r outcome) =
          ((log_call (GetUser uname pword) err this)\<lparr>user := usr\<rparr>, done_ok))
   \<and>
   (grantType this = Some ''client_credentials'' \<and>
    client this = Some cl \<and> truthy_str (clientId cl) \<and> truthy_str (clientSecret cl) \<and>
    getUserFromClient (model (config this)) (clientId cl) (clientSecret cl) = (err, usr) \<and>
    \<not> truthy err \<and> truthy usr
    \<longrightarrow> (checkGrantType this :: 'a grant_scheme \<times> 'r outcome) =
          ((log_call (GetUserFromClient (clientId cl) (clientSecret cl)) err this)
             \<lparr>user := usr\<rparr>, done_ok))"
proof (intro conjI impI)
  assume h: "grantType this = Some gt \<and>
    (gt = ''authorization_code'' \<or>
     extension_scheme gt \<and> extendedGrant (model (config this)) \<noteq> None) \<and>
    calls_back_ok (snd (checkGrantType this :: 'a grant_scheme \<times> 'r outcome))"
  show "get_prop (user (fst (checkGrantType this :: 'a grant_scheme \<times> 'r outcome))) ''id''
          \<noteq> JUndefined"
  proof (cases "extension_scheme gt \<and> extendedGrant (model (config this)) \<noteq> None")
    case True
    with h have "(checkGrantType this :: 'a grant_scheme \<times> 'r outcome) = useExtendedGrant this"
      by (simp add: checkGrantType_def)
    with h useExtendedGrant_id [of this, where ?'r = 'r] show ?thesis by simp
  next
    case False
    with h have "gt = ''authorization_code''" by blast
    with h have "(checkGrantType this :: 'a grant_scheme \<times> 'r outcome) = useAuthCodeGrant this"
      by (simp add: checkGrantType_def)
    with h useAuthCodeGrant_id [of this, where ?'r = 'r] show ?thesis by simp
  qed
next
  assume "grantType this = Some ''authorization_code'' \<and>
    payload (req this) = Some p \<and> p ''code'' = Some code \<and> code \<noteq> [] \<and>
    client this = Some cl \<and>
    getAuthCode (model (config this)) code = (err, Some ac) \<and> \<not> truthy err \<and>
    rec_clientId ac = js_of_str (clientId cl) \<and> \<not> date_lt (rec_expires ac) (now this) \<and>
    \<not> truthy (rec_user ac) \<and> \<not> truthy (rec_userId ac)"
  then show "snd (checkGrantType this :: 'a grant_scheme \<times> 'r outcome) =
          done_err (OAuth2Error (JStr ''server_error'') (JBool False)
                      (JStr ''No user/userId parameter returned from getauthCode''))"
    by (simp add: checkGrantType_def useAuthCodeGrant_def Let_def js_or_def log_call_def)
next
  assume "grantType this = Some ''refresh_token'' \<and>
    payload (req this) = Some p \<and> p ''refresh_token'' = Some tok \<and> tok \<noteq> [] \<and>
    client this = Some cl \<and>
    getRefreshToken (model (config this)) tok = (err, Some rt) \<and> \<not> truthy err \<and>
    rec_clientId rt = js_of_str (clientId cl) \<and>
    (rec_expires rt = DNull \<or> \<not> date_lt (rec_expires rt) (now this)) \<and>
    \<not> truthy (rec_user rt) \<and> \<not> truthy (rec_userId rt)"
  then show "snd (checkGrantType this :: 'a grant_scheme \<times> 'r outcome) =
          done_err (OAuth2Error (JStr ''server_error'') (JBool False)
                      (JStr ''No user/userId parameter returned from getRefreshToken''))"
    by (auto simp: checkGrantType_def useRefreshTokenGrant_def Let_def log_call_def)
next
  assume "grantType this = Some ''password'' \<and>
    payload (req this) = Some p \<and> p ''username'' = Some uname \<and> uname \<noteq> [] \<and>
    p ''password'' = Some pword \<and> pword \<noteq> [] \<and>
    getUser (model (config this)) uname pword = (err, usr) \<and> \<not> truthy err \<and> truthy usr"
  then show "(checkGrantType this :: 'a grant_scheme \<times> 'r outcome) =
          ((log_call (GetUser uname pword) err this)\<lparr>user := usr\<rparr>, done_ok)"
    by (simp add: checkGrantType_def usePasswordGrant_def Let_def)
next
  assume "grantType this = Some ''client_credentials'' \<and>
    client this = Some cl \<and> truthy_str (clientId cl) \<and> truthy_str (clientSecret cl) \<and>
    getUserFromClient (model (config this)) (clientId cl) (clientSecret cl) = (err, usr) \<and>
    \<not> truthy err \<and> truthy usr"
  then show "(checkGrantType this :: 'a grant_scheme \<times> 'r outcome) =
          ((log_call (GetUserFromClient (clientId cl) (clientSecret cl)) err this)
             \<lparr>user := usr\<rparr>, done_ok)"
    by (simp add: checkGrantType_def useClientCredentialsGrant_def Let_def)
qed


theorem dispatch_user_id_witness:
  "calls_back_ok (snd (checkGrantType
       (at_dispatch 1000 [] (demo_config_with_code record_of_user_7) code_req
          ''authorization_code'' (Client (Some ''app'') (Some ''s3cret'')))
       :: grant \<times> response outcome)) \<and>
   get_prop (user (fst (checkGrantType
       (at_dispatch 1000 [] (demo_config_with_code record_of_user_7) code_req
          ''authorization_code'' (Client (Some ''app'') (Some ''s3cret'')))
       :: grant \<times> response outcome))) ''id'' \<noteq> JUndefined \<and>
   snd (checkGrantType
       (at_dispatch 1000 [] (demo_config_with_code record_of_nobody) code_req
          ''authorization_code'' (Client (Some ''app'') (Some ''s3cret'')))
       :: grant \<times> response outcome)
     = done_err (OAuth2Error (JStr ''server_error'') (JBool False)
                      (JStr ''No user/userId parameter returned from getauthCode'')) \<and>
   snd (checkGrantType
       (at_dispatch 1000 [] (demo_config_with_refresh record_of_nobody) refresh_req
          ''refresh_token'' (Client (Some ''app'') (Some ''s3cret'')))
       :: grant \<times> response outcome)
     = done_err (OAuth2Error (JStr ''server_error'') (JBool False)
                      (JStr ''No user/userId parameter returned from getRefreshToken'')) \<and>
   user (fst (checkGrantType
       (at_dispatch 1000 [] demo_config password_req
          ''password'' (Client (Some ''app'') (Some ''s3cret'')))
       :: grant \<times> response outcome)) = JObj [(''name'', JStr ''bob'')] \<and>
   user (fst (checkGrantType
       (at_dispatch 1000 [] demo_config client_credentials_req
          ''client_credentials'' (Client (Some ''app'') (Some ''s3cret'')))
       :: grant \<times> response outcome)) = JObj [(''name'', JStr ''service'')]"
proof -
  let ?cl = "Client (Some ''app'') (Some ''s3cret'')"
  let ?c1 = "at_dispatch 1000 [] (demo_config_with_code record_of_user_7) code_req
               ''authorization_code'' ?cl"
  let ?c2 = "at_dispatch 1000 [] (demo_config_with_code record_of_nobody) code_req
               ''authorization_code'' ?cl"
  let ?c3 = "at_dispatch 1000 [] (demo_config_with_refresh record_of_nobody) refresh_req
               ''refresh_token'' ?cl"
  let ?c4 = "at_dispatch 1000 [] demo_config password_req ''password'' ?cl"
  let ?c5 = "at_dispatch 1000 [] demo_config client_credentials_req ''client_credentials'' ?cl"
  have ok: "calls_back_ok (snd (checkGrantType ?c1 :: grant \<times> response outcome))"
    by (simp add: step_defs demo_defs at_dispatch_def calls_back_ok_def)
  from dispatch_user_id
         [where this = ?c1 and gt = "''authorization_code''" and ?'r = response,
          THEN conjunct1] ok
  have r1: "get_prop (user (fst (checkGrantType ?c1 :: grant \<times> response outcome))) ''id''
              \<noteq> JUndefined"
    by (simp add: at_dispatch_def)
  from dispatch_user_id
         [where this = ?c2 and ?'r = response and code = "''c0de''" and cl = ?cl
            and err = JNull and ac = record_of_nobody
            and p = "map_of [(''grant_type'', ''authorization_code''),
                       (''client_id'', ''app''), (''client_secret'', ''s3cret''),
                       (''code'', ''c0de'')]",
          THEN conjunct2, THEN conjunct1]
  have r2: "snd (checkGrantType ?c2 :: grant \<times> response outcome)
     = done_err (OAuth2Error (JStr ''server_error'') (JBool False)
                      (JStr ''No user/userId parameter returned from getauthCode''))"
    by (simp add: at_dispatch_def demo_defs Client_def js_of_str_def)
  from dispatch_user_id
         [where this = ?c3 and ?'r = response and tok = "''old-rt''" and cl = ?cl
            and err = JNull and rt = record_of_nobody
            and p = "map_of [(''grant_type'', ''refresh_token''),
                       (''client_id'', ''app''), (''client_secret'', ''s3cret''),
                       (''refresh_token'', ''old-rt'')]",
          THEN conjunct2, THEN conjunct2, THEN conjunct1]
  have r3: "snd (checkGrantType ?c3 :: grant \<times> response outcome)
     = done_err (OAuth2Error (JStr ''server_error'') (JBool False)
                      (JStr ''No user/userId parameter returned from getRefreshToken''))"
    by (simp add: at_dispatch_def demo_defs Client_def js_of_str_def)
  from dispatch_user_id
         [where this = ?c4 and ?'r = response and uname = "''bob''" and pword = "''pw''"
            and err = JNull and usr = "JObj [(''name'', JStr ''bob'')]"
            and p = "map_of [(''grant_type'', ''password''), (''client_id'', ''app''),
                       (''client_secret'', ''s3cret''), (''username'', ''bob''),
                       (''password'', ''pw'')]",
          THEN conjunct2, THEN conjunct2, THEN conjunct2, THEN conjunct1]
  have r4: "user (fst (checkGrantType ?c4 :: grant \<times> response outcome))
              = JObj [(''name'', JStr ''bob'')]"
    by (simp add: at_dispatch_def demo_defs)
  from dispatch_user_id
         [where this = ?c5 and ?'r = response and cl = ?cl
            and err = JNull and usr = "JObj [(''name'', JStr ''service'')]",
          THEN conjunct2, THEN conjunct2, THEN conjunct2, THEN conjunct2]
  have r5: "user (fst (checkGrantType ?c5 :: grant \<times> response outcome))
              = JObj [(''name'', JStr ''service'')]"
    by (simp add: at_dispatch_def demo_defs Client_def truthy_str_def)
  from ok r1 r2 r3 r4 r5 show ?thesis by simp
qed


end
